theory Spec2Isabelle
  imports Complex_Main
begin

section \<open>JavaScript strings and the string primitives the modules use\<close>

text \<open>
  A JavaScript string is a sequence of UTF-16 code units. The embedding works on
  \<^typ>\<open>string\<close>: one \<^typ>\<open>char\<close> per code unit, for the code units below 256.
  The characters the code tests by name are abbreviations of their code points.
\<close>

abbreviation (input) squote :: char where "squote \<equiv> CHR 0x27"
abbreviation (input) dquote :: char where "dquote \<equiv> CHR 0x22"
abbreviation (input) backslash :: char where "backslash \<equiv> CHR 0x5C"
abbreviation (input) newline :: char where "newline \<equiv> CHR 0x0A"

text \<open>
  White space as \<open>String.prototype.trim\<close>, \<open>trimEnd\<close> and the regular expression class
  \<open>\s\<close> read it (WhiteSpace and LineTerminator of ECMAScript), below 256: TAB, LF, VT,
  FF, CR, SPACE and NO-BREAK SPACE.
\<close>

definition isJsSpace :: "char \<Rightarrow> bool" where
  "isJsSpace c =
     (c = CHR 0x09 \<or> c = CHR 0x0A \<or> c = CHR 0x0B \<or> c = CHR 0x0C \<or> c = CHR 0x0D
      \<or> c = CHR 0x20 \<or> c = CHR 0xA0)"

text \<open>The class \<open>\w\<close> is \<open>[A-Za-z0-9_]\<close>; \<open>[a-fA-F0-9]\<close> is a hexadecimal digit.\<close>

definition isUpper :: "char \<Rightarrow> bool" where
  "isUpper c = (let n = (of_char c :: nat) in 65 \<le> n \<and> n \<le> 90)"

definition isLower :: "char \<Rightarrow> bool" where
  "isLower c = (let n = (of_char c :: nat) in 97 \<le> n \<and> n \<le> 122)"

definition isDigit :: "char \<Rightarrow> bool" where
  "isDigit c = (let n = (of_char c :: nat) in 48 \<le> n \<and> n \<le> 57)"

definition isWordChar :: "char \<Rightarrow> bool" where
  "isWordChar c = (isUpper c \<or> isLower c \<or> isDigit c \<or> c = CHR ''_'')"

definition isHexChar :: "char \<Rightarrow> bool" where
  "isHexChar c =
     (isDigit c \<or> (let n = (of_char c :: nat) in (97 \<le> n \<and> n \<le> 102) \<or> (65 \<le> n \<and> n \<le> 70)))"

text \<open>Case folding of the ASCII letters, for the regular expressions with the flag \<open>i\<close>.\<close>

definition lowerChar :: "char \<Rightarrow> char" where
  "lowerChar c = (if isUpper c then char_of ((of_char c :: nat) + 32) else c)"

text \<open>\<open>trimStart\<close>, \<open>trimEnd\<close> and \<open>trim\<close>.\<close>

definition trimStart :: "string \<Rightarrow> string" where
  "trimStart s = dropWhile isJsSpace s"

fun trimEnd :: "string \<Rightarrow> string" where
  "trimEnd [] = []"
| "trimEnd (c # cs) = (let t = trimEnd cs in if t = [] \<and> isJsSpace c then [] else c # t)"

definition trim :: "string \<Rightarrow> string" where
  "trim s = trimEnd (trimStart s)"

text \<open>\<open>s.startsWith(p)\<close>, \<open>s.endsWith(p)\<close> and \<open>s.includes(p)\<close>.\<close>

fun startsWith :: "string \<Rightarrow> string \<Rightarrow> bool" where
  "startsWith s [] = True"
| "startsWith [] (p # ps) = False"
| "startsWith (c # cs) (p # ps) = (c = p \<and> startsWith cs ps)"

definition endsWith :: "string \<Rightarrow> string \<Rightarrow> bool" where
  "endsWith s p = startsWith (rev s) (rev p)"

fun includes_str :: "string \<Rightarrow> string \<Rightarrow> bool" where
  "includes_str [] p = (p = [])"
| "includes_str (c # cs) p = (startsWith (c # cs) p \<or> includes_str cs p)"

text \<open>\<open>s.split('\n')\<close> and \<open>lines.join('\n')\<close>. Splitting always yields at least one piece.\<close>

fun splitLines :: "string \<Rightarrow> string list" where
  "splitLines [] = [[]]"
| "splitLines (c # cs) =
     (if c = newline then [] # splitLines cs
      else (case splitLines cs of [] \<Rightarrow> [[c]] | l # ls \<Rightarrow> (c # l) # ls))"

fun joinLines :: "string list \<Rightarrow> string" where
  "joinLines [] = []"
| "joinLines [l] = l"
| "joinLines (l # m # ls) = l @ newline # joinLines (m # ls)"

section \<open>The regular expressions of the source\<close>

text \<open>
  The patterns the modules use are built from character classes, literals, sequence,
  alternative, greedy repetition of one class (\<open>c*\<close>, \<open>c+\<close>, \<open>c{n}\<close>) and the optional
  group. \<open>rxm r s k\<close> matches \<open>r\<close> at the head of \<open>s\<close> and hands the rest of the input to
  the continuation \<open>k\<close>; when \<open>k\<close> refuses, matching backtracks in the order of a
  JavaScript engine: the first alternative before the second, the longer repetition
  before the shorter.
\<close>

datatype rx =
    Eps
  | Ch "char \<Rightarrow> bool"
  | Sq rx rx
  | Alt rx rx
  | Many "char \<Rightarrow> bool"

fun rxm :: "rx \<Rightarrow> string \<Rightarrow> (string \<Rightarrow> 'a option) \<Rightarrow> 'a option" where
  "rxm Eps s k = k s"
| "rxm (Ch p) s k = (case s of [] \<Rightarrow> None | c # cs \<Rightarrow> if p c then k cs else None)"
| "rxm (Sq a b) s k = rxm a s (\<lambda>t. rxm b t k)"
| "rxm (Alt a b) s k = (case rxm a s k of Some r \<Rightarrow> Some r | None \<Rightarrow> rxm b s k)"
| "rxm (Many p) s k =
     (case s of
        [] \<Rightarrow> k []
      | c # cs \<Rightarrow>
          if p c then (case rxm (Many p) cs k of Some r \<Rightarrow> Some r | None \<Rightarrow> k s)
          else k s)"

text \<open>A literal, case-sensitive and under the flag \<open>i\<close>; \<open>c+\<close>, \<open>c{n}\<close> and \<open>(?:r)?\<close>.\<close>

fun Lit :: "string \<Rightarrow> rx" where
  "Lit [] = Eps"
| "Lit (c # cs) = Sq (Ch (\<lambda>x. x = c)) (Lit cs)"

fun LitI :: "string \<Rightarrow> rx" where
  "LitI [] = Eps"
| "LitI (c # cs) = Sq (Ch (\<lambda>x. lowerChar x = lowerChar c)) (LitI cs)"

definition Many1 :: "(char \<Rightarrow> bool) \<Rightarrow> rx" where
  "Many1 p = Sq (Ch p) (Many p)"

fun Rep :: "nat \<Rightarrow> (char \<Rightarrow> bool) \<Rightarrow> rx" where
  "Rep 0 p = Eps"
| "Rep (Suc n) p = Sq (Ch p) (Rep n p)"

definition Opt :: "rx \<Rightarrow> rx" where
  "Opt r = Alt r Eps"

fun Seqs :: "rx list \<Rightarrow> rx" where
  "Seqs [] = Eps"
| "Seqs (r # rs) = Sq r (Seqs rs)"

text \<open>
  A search without anchors tries the positions of the input from left to right and
  stops at the first one where the pattern and the continuation succeed.
  \<open>re.test(s)\<close> is such a search. \<open>rxTestB\<close> is the same for a pattern that opens with
  the word boundary \<open>\b\<close>: the character before the position and the character at it
  are not both word characters and not both non-word characters (the boundary of the
  input counts as a non-word character).
\<close>

fun rxSearch :: "rx \<Rightarrow> (string \<Rightarrow> 'a option) \<Rightarrow> string \<Rightarrow> 'a option" where
  "rxSearch r k [] = rxm r [] k"
| "rxSearch r k (c # cs) =
     (case rxm r (c # cs) k of Some x \<Rightarrow> Some x | None \<Rightarrow> rxSearch r k cs)"

definition rxTest :: "rx \<Rightarrow> string \<Rightarrow> bool" where
  "rxTest r s = (rxSearch r (\<lambda>t. Some ()) s \<noteq> None)"

definition wordBoundary :: "char option \<Rightarrow> string \<Rightarrow> bool" where
  "wordBoundary p s =
     ((case p of None \<Rightarrow> False | Some c \<Rightarrow> isWordChar c)
      \<noteq> (case s of [] \<Rightarrow> False | c # cs \<Rightarrow> isWordChar c))"

fun rxTestB :: "rx \<Rightarrow> char option \<Rightarrow> string \<Rightarrow> bool" where
  "rxTestB r p [] = (wordBoundary p [] \<and> rxm r [] (\<lambda>t. Some ()) \<noteq> None)"
| "rxTestB r p (c # cs) =
     ((wordBoundary p (c # cs) \<and> rxm r (c # cs) (\<lambda>t. Some ()) \<noteq> None) \<or> rxTestB r (Some c) cs)"

section \<open>sourceParser.js: stripSolidityComments\<close>

text \<open>
  The scanner keeps an index \<open>i\<close> into \<open>source\<close> and the string \<open>result\<close>. The embedding
  keeps the character before the index (\<open>source[i - 1]\<close>, \<open>None\<close> when \<open>i = 0\<close>), the input
  from the index on (\<open>source.slice(i)\<close>) and \<open>result\<close>.

  The inner loop of a string literal, entered after the opening quote is copied:
  \<^verbatim>\<open>while (i < len) { result += source[i];
     if (source[i] === q && source[i - 1] !== '\\') { i++; break; }  i++; }\<close>
\<close>

fun copyUntilQuote :: "char \<Rightarrow> char \<Rightarrow> string \<Rightarrow> string \<Rightarrow> char \<times> string \<times> string" where
  "copyUntilQuote q p [] res = (p, [], res)"
| "copyUntilQuote q p (c # cs) res =
     (if c = q \<and> p \<noteq> backslash then (c, cs, res @ [c])
      else copyUntilQuote q c cs (res @ [c]))"

text \<open>
  The inner loop of a block comment, entered after \<open>i += 2\<close>:
  \<^verbatim>\<open>while (i < len - 1) {
     if (source[i] === '*' && source[i + 1] === '/') { i += 2; break; }  i++; }\<close>
  The loop needs two characters ahead of the index; with fewer it exits and leaves them.
\<close>

fun skipBlockComment :: "char \<Rightarrow> string \<Rightarrow> char \<times> string" where
  "skipBlockComment p (a # b # cs) =
     (if a = CHR ''*'' \<and> b = CHR ''/'' then (b, cs) else skipBlockComment a (b # cs))"
| "skipBlockComment p cs = (p, cs)"

text \<open>The inner loop of a line comment: \<^verbatim>\<open>while (i < len && source[i] !== '\n') i++;\<close>\<close>

fun skipLine :: "char \<Rightarrow> string \<Rightarrow> char \<times> string" where
  "skipLine p [] = (p, [])"
| "skipLine p (c # cs) = (if c \<noteq> newline then skipLine c cs else (p, c # cs))"

text \<open>
  One iteration of the main loop \<^verbatim>\<open>while (i < len) { ... }\<close>, in the order of its
  branches: single-quoted literal, double-quoted literal, block comment, line comment,
  regular character. With no input left the loop is over and the state stays.
\<close>

fun scanStep :: "char option \<times> string \<times> string \<Rightarrow> char option \<times> string \<times> string" where
  "scanStep (p, [], res) = (p, [], res)"
| "scanStep (p, c # cs, res) =
     (let nextChar = (case cs of [] \<Rightarrow> None | d # ds \<Rightarrow> Some d) in
      if c = squote \<and> p \<noteq> Some backslash then
        (case copyUntilQuote squote c cs (res @ [c]) of (p', rest', res') \<Rightarrow> (Some p', rest', res'))
      else if c = dquote \<and> p \<noteq> Some backslash then
        (case copyUntilQuote dquote c cs (res @ [c]) of (p', rest', res') \<Rightarrow> (Some p', rest', res'))
      else if c = CHR ''/'' \<and> nextChar = Some (CHR ''*'') then
        (case skipBlockComment (CHR ''*'') (tl cs) of (p', rest') \<Rightarrow> (Some p', rest', res))
      else if c = CHR ''/'' \<and> nextChar = Some (CHR ''/'') then
        (case skipLine c cs of
           (p', []) \<Rightarrow> (Some p', [], res)
         | (p', n # rest') \<Rightarrow> (Some n, rest', res @ [newline]))
      else (Some c, cs, res @ [c]))"

lemma copyUntilQuote_length:
  "copyUntilQuote q p cs res = (p', rest', res') \<Longrightarrow> length rest' \<le> length cs"
  by (induction cs arbitrary: p res) (fastforce split: if_splits intro: le_SucI)+

lemma skipBlockComment_length:
  "skipBlockComment p cs = (p', rest') \<Longrightarrow> length rest' \<le> length cs"
  by (induction p cs rule: skipBlockComment.induct) (fastforce split: if_splits intro: le_SucI)+

lemma skipLine_length:
  "skipLine p cs = (p', rest') \<Longrightarrow> length rest' \<le> length cs"
  by (induction cs arbitrary: p) (fastforce split: if_splits intro: le_SucI)+

lemma scanStep_shorter:
  "scanStep (p, c # cs, res) = (p', rest', res') \<Longrightarrow> length rest' < Suc (length cs)"
  by (auto simp: Let_def le_imp_less_Suc split: if_splits prod.splits list.splits
      dest!: copyUntilQuote_length skipBlockComment_length skipLine_length)

function stripLoop :: "char option \<times> string \<times> string \<Rightarrow> string" where
  "stripLoop (p, rest, res) =
     (if rest = [] then res else stripLoop (scanStep (p, rest, res)))"
  by pat_completeness auto
termination
proof (relation "measure (\<lambda>(p, rest, res). length rest)")
  show "wf (measure (\<lambda>(p, rest, res). length rest))" by simp
next
  fix p :: "char option" and rest res :: string
  assume ne: "rest \<noteq> []"
  then obtain c cs where rest: "rest = c # cs" by (cases rest) auto
  obtain p' rest' res' where st: "scanStep (p, c # cs, res) = (p', rest', res')"
    by (cases "scanStep (p, c # cs, res)") auto
  from scanStep_shorter [OF st] rest st
  show "(scanStep (p, rest, res), (p, rest, res)) \<in> measure (\<lambda>(p, rest, res). length rest)"
    by simp
qed

text \<open>
  The clean-up after the scan: \<^verbatim>\<open>result.replace(/\n{3,}/g, '\n\n')\<close> replaces every
  maximal run of three or more newlines by two.
\<close>

function collapseNewlines :: "string \<Rightarrow> string" where
  "collapseNewlines [] = []"
| "collapseNewlines (c # cs) =
     (if c = newline then
        (let run = takeWhile (\<lambda>x. x = newline) cs in
         (if 2 \<le> length run then [newline, newline] else c # run)
           @ collapseNewlines (dropWhile (\<lambda>x. x = newline) cs))
      else c # collapseNewlines cs)"
  by pat_completeness auto
termination
  by (relation "measure length") (auto simp: length_dropWhile_le le_imp_less_Suc)

text \<open>
  \<^verbatim>\<open>result = result.replace(/\n{3,}/g, '\n\n');
  result = result.split('\n').map(line => line.trimEnd()).join('\n');
  return result.trim() + '\n';\<close>
\<close>

definition stripSolidityComments :: "string \<Rightarrow> string" where
  "stripSolidityComments source =
     (let result = stripLoop (None, source, []);
          result = collapseNewlines result;
          result = joinLines (map trimEnd (splitLines result))
      in trim result @ [newline])"

section \<open>sourceParser.js: the audit classifier\<close>

text \<open>
  \<open>isPureInterface\<close>: the two tests are \<^verbatim>\<open>/\binterface\s+\w+/\<close> and
  \<^verbatim>\<open>/function\s+\w+[^;]*\{[^}]+\}/\<close>, on the text without its comments.
\<close>

definition interfaceRx :: rx where
  "interfaceRx = Seqs [Lit ''interface'', Many1 isJsSpace, Many1 isWordChar]"

definition functionBodyRx :: rx where
  "functionBodyRx =
     Seqs [Lit ''function'', Many1 isJsSpace, Many1 isWordChar, Many (\<lambda>c. c \<noteq> CHR '';''),
           Ch (\<lambda>c. c = CHR ''{''), Many1 (\<lambda>c. c \<noteq> CHR ''}''), Ch (\<lambda>c. c = CHR ''}'')]"

definition isPureInterface :: "string \<Rightarrow> bool" where
  "isPureInterface content =
     (let withoutComments = stripSolidityComments content in
      if \<not> rxTestB interfaceRx None withoutComments then False
      else (let hasFunctionBodies = rxTest functionBodyRx withoutComments
            in \<not> hasFunctionBodies))"

text \<open>
  \<open>RED_FLAG_PATHS\<close>: each pattern is a literal anchored at the start of the path, under
  the flag \<open>i\<close>. The table is still declared in the module; the live
  \<open>shouldExcludeFromAudit\<close> does not read it.
\<close>

definition RED_FLAG_PATHS :: "rx list" where
  "RED_FLAG_PATHS =
     [LitI ''contracts/lib/'', LitI ''contracts/vendor/'', LitI ''contracts/external/'',
      LitI ''contracts/utils/'', LitI ''contracts/libraries/'', LitI ''src/lib/'',
      LitI ''src/vendor/'', LitI ''src/external/'', LitI ''lib/'', LitI ''vendor/'',
      LitI ''external/'']"

definition matchesRedFlag :: "string \<Rightarrow> bool" where
  "matchesRedFlag filePath = list_ex (\<lambda>r. rxm r filePath (\<lambda>t. Some ()) \<noteq> None) RED_FLAG_PATHS"

text \<open>
  The object \<open>shouldExcludeFromAudit\<close> returns has the keys \<open>shouldExclude\<close> and \<open>reason\<close>;
  its callers also read \<open>warning\<close> and \<open>note\<close>, which are \<open>undefined\<close> (\<open>None\<close>) on it.
  The body that consulted the pattern tables is commented out in the module:
  \<^verbatim>\<open>return { shouldExclude: false, reason: 'custom-contract' };\<close>
\<close>

record exclusion =
  shouldExclude :: bool
  reason :: string
  warning :: "string option"
  exclusionNote :: "string option"

definition shouldExcludeFromAudit :: "string \<Rightarrow> exclusion" where
  "shouldExcludeFromAudit filePath =
     \<lparr>shouldExclude = False, reason = ''custom-contract'', warning = None, exclusionNote = None\<rparr>"

text \<open>A string that may be \<open>undefined\<close> is truthy when it is there and not empty.\<close>

definition truthyStr :: "string option \<Rightarrow> bool" where
  "truthyStr v = (case v of None \<Rightarrow> False | Some s \<Rightarrow> s \<noteq> [])"

definition strOf :: "string option \<Rightarrow> string" where
  "strOf v = (case v of None \<Rightarrow> [] | Some s \<Rightarrow> s)"

record auditWarning =
  warnFile :: string
  warnText :: string
  warnReason :: string

record categories =
  mainContract :: "string option"
  criticalFiles :: "string list"
  redFlagFiles :: "string list"
  dependencies :: "string list"
  interfaces :: "string list"
  excluded :: "string list"
  excludedReasons :: "string \<rightharpoonup> string"
  warnings :: "auditWarning list"

text \<open>
  \<open>categorizeFilesForAudit(files, mainContract)\<close>: \<open>files\<close> is the list
  \<open>Object.entries(files)\<close>, in its order. One iteration of the loop:
\<close>

definition categorizeEntry :: "string option \<Rightarrow> categories \<Rightarrow> string \<times> string \<Rightarrow> categories" where
  "categorizeEntry mainC cats entry =
     (case entry of (filePath, content) \<Rightarrow>
      (let exclusion = shouldExcludeFromAudit filePath in
       if truthyStr (warning exclusion) then
         cats\<lparr>warnings := warnings cats @
                 [\<lparr>warnFile = filePath, warnText = strOf (warning exclusion),
                   warnReason = reason exclusion\<rparr>],
              redFlagFiles := redFlagFiles cats @ [filePath],
              criticalFiles := criticalFiles cats @ [filePath]\<rparr>
       else if shouldExclude exclusion then
         cats\<lparr>excluded := excluded cats @ [filePath],
              excludedReasons := (excludedReasons cats)(filePath \<mapsto> reason exclusion)\<rparr>
       else if Some filePath = mainC then cats
       else if isPureInterface content then
         (let cats1 = cats\<lparr>interfaces := interfaces cats @ [filePath]\<rparr> in
          if truthyStr (exclusionNote exclusion) then
            cats1\<lparr>warnings := warnings cats1 @
                    [\<lparr>warnFile = filePath, warnText = strOf (exclusionNote exclusion),
                      warnReason = ''interface-review''\<rparr>]\<rparr>
          else cats1)
       else cats\<lparr>criticalFiles := criticalFiles cats @ [filePath]\<rparr>))"

definition categorizeFilesForAudit :: "(string \<times> string) list \<Rightarrow> string option \<Rightarrow> categories" where
  "categorizeFilesForAudit files mainC =
     foldl (categorizeEntry mainC)
       \<lparr>mainContract = mainC, criticalFiles = [], redFlagFiles = [], dependencies = [],
        interfaces = [], excluded = [], excludedReasons = Map.empty, warnings = []\<rparr>
       files"

text \<open>
  The two buckets a file that is not the main contract can fall into:
  \<open>keptAs mainC True\<close> holds of the pure interfaces, \<open>keptAs mainC False\<close> of the others.
\<close>

definition keptAs :: "string option \<Rightarrow> bool \<Rightarrow> string \<times> string \<Rightarrow> bool" where
  "keptAs mainC iface entry = (Some (fst entry) \<noteq> mainC \<and> isPureInterface (snd entry) = iface)"

section \<open>sourceParser.js: the blacklist and saveSourceFiles\<close>

text \<open>
  The blacklist file \<open>config/contract-blacklist.json\<close> is outside the module: it is
  absent, or it cannot be read or parsed, or it is an object whose key
  \<open>contractFileNames\<close> is missing or holds a list of strings.
  \<^verbatim>\<open>try { if (fs.existsSync(PATH)) { const blacklistData = JSON.parse(fs.readFileSync(PATH, 'utf8'));
          return blacklistData.contractFileNames || []; } } catch (error) { console.warn(...) }
  return [];\<close>
\<close>

datatype blacklistConfig =
    ConfigAbsent
  | ConfigUnreadable
  | ConfigData "string list option"

definition loadBlacklist :: "blacklistConfig \<Rightarrow> string list" where
  "loadBlacklist cfg =
     (case cfg of
        ConfigAbsent \<Rightarrow> []
      | ConfigUnreadable \<Rightarrow> []
      | ConfigData contractFileNames \<Rightarrow>
          (case contractFileNames of None \<Rightarrow> [] | Some names \<Rightarrow> names))"

text \<open>\<^verbatim>\<open>filePath.replace(/\\/g, '/')\<close>\<close>

definition slashes :: "string \<Rightarrow> string" where
  "slashes filePath = map (\<lambda>c. if c = backslash then CHR ''/'' else c) filePath"

definition isBlacklisted :: "blacklistConfig \<Rightarrow> string \<Rightarrow> bool" where
  "isBlacklisted cfg filePath =
     (if filePath = [] then False
      else (let blacklist = loadBlacklist cfg in
            if length blacklist = 0 then False
            else (let normalizedPath = slashes filePath in
                  list_ex (\<lambda>pattern. includes_str normalizedPath pattern) blacklist)))"

text \<open>
  What \<open>saveSourceFiles\<close> takes from Node and from the rest of the module: \<open>path.join\<close>,
  \<open>path.relative\<close>, the constant \<open>OUTPUT_DIR\<close> and the state of the blacklist file.
\<close>

record hostEnv =
  pathJoin :: "string list \<Rightarrow> string"
  pathRelative :: "string \<Rightarrow> string \<Rightarrow> string"
  OUTPUT_DIR :: string
  blacklistFile :: blacklistConfig

text \<open>
  The disk is the map from the full path of a regular file to its text.
  \<open>fs.writeFileSync\<close> (after \<open>fs.mkdirSync\<close> of the directory) stores a text and
  \<open>fs.unlinkSync\<close> removes one; both are taken to succeed. Directories are not part of
  the map, so \<open>cleanupEmptyDirectories\<close>, which removes empty directories only, leaves it
  as it is.

  The variables of \<open>saveSourceFiles\<close>:
\<close>

record saveState =
  disk :: "string \<rightharpoonup> string"
  savedFiles :: "string list"
  excludedFiles :: "string list"
  exclusionReasons :: "string \<rightharpoonup> string"
  keptFiles :: "string list"
  blacklistedFiles :: "string list"
  deletedFiles :: "string list"

text \<open>\<^verbatim>\<open>if (normalizedPath.startsWith('/')) { normalizedPath = normalizedPath.slice(1); }\<close>\<close>

definition dropLeadingSlash :: "string \<Rightarrow> string" where
  "dropLeadingSlash filePath = (if startsWith filePath ''/'' then tl filePath else filePath)"

text \<open>
  \<open>createOutputDirectory\<close> returns \<open>path.join(OUTPUT_DIR, chainName, contractAddress)\<close>; the
  files of a proxy or an implementation go one level below it.
\<close>

definition subDirOf :: "string \<Rightarrow> string" where
  "subDirOf contractType =
     (if contractType = ''proxy'' then ''proxy''
      else if contractType = ''implementation'' then ''implementation''
      else [])"

definition baseDirOf :: "hostEnv \<Rightarrow> string \<Rightarrow> string \<Rightarrow> string" where
  "baseDirOf env chainName contractAddress = pathJoin env [OUTPUT_DIR env, chainName, contractAddress]"

definition rootOf :: "hostEnv \<Rightarrow> string \<Rightarrow> string \<Rightarrow> string" where
  "rootOf env baseDir subDir = (if subDir \<noteq> [] then pathJoin env [baseDir, subDir] else baseDir)"

definition fullPathOf :: "hostEnv \<Rightarrow> string \<Rightarrow> string \<Rightarrow> string \<Rightarrow> string" where
  "fullPathOf env baseDir subDir relPath =
     (if subDir \<noteq> [] then pathJoin env [baseDir, subDir, relPath]
      else pathJoin env [baseDir, relPath])"

text \<open>One iteration of the loop over \<open>Object.entries(parsedSource.files)\<close>.\<close>

definition saveEntry :: "hostEnv \<Rightarrow> string \<Rightarrow> string \<Rightarrow> saveState \<Rightarrow> string \<times> string \<Rightarrow> saveState" where
  "saveEntry env baseDir subDir st entry =
     (case entry of (filePath, content) \<Rightarrow>
      (let normalizedPath = dropLeadingSlash filePath in
       if isBlacklisted (blacklistFile env) normalizedPath then
         st\<lparr>blacklistedFiles := blacklistedFiles st @ [normalizedPath],
            excludedFiles := excludedFiles st @ [normalizedPath],
            exclusionReasons := (exclusionReasons st)(normalizedPath \<mapsto> ''blacklisted-vendor-library'')\<rparr>
       else
         (let exclusion = shouldExcludeFromAudit normalizedPath;
              fullPath = fullPathOf env baseDir subDir normalizedPath;
              processedContent =
                (if endsWith normalizedPath ''.sol'' then stripSolidityComments content else content);
              st1 = st\<lparr>disk := (disk st)(fullPath \<mapsto> processedContent),
                       savedFiles := savedFiles st @ [fullPath]\<rparr>
          in if shouldExclude exclusion \<and> \<not> truthyStr (warning exclusion) then
               st1\<lparr>excludedFiles := excludedFiles st1 @ [normalizedPath],
                    exclusionReasons := (exclusionReasons st1)(normalizedPath \<mapsto> reason exclusion)\<rparr>
             else st1\<lparr>keptFiles := keptFiles st1 @ [normalizedPath]\<rparr>)))"

text \<open>
  \<open>savedFiles.findIndex(...)\<close> followed by \<open>splice(savedIndex, 1)\<close> removes the first
  element that passes the test, if there is one.
\<close>

fun removeFirst :: "('a \<Rightarrow> bool) \<Rightarrow> 'a list \<Rightarrow> 'a list" where
  "removeFirst P [] = []"
| "removeFirst P (x # xs) = (if P x then xs else x # removeFirst P xs)"

text \<open>One iteration of the loop that deletes the excluded files.\<close>

definition deleteExcluded :: "hostEnv \<Rightarrow> string \<Rightarrow> string \<Rightarrow> saveState \<Rightarrow> string \<Rightarrow> saveState" where
  "deleteExcluded env baseDir subDir st excludedFile =
     (let fullPath = fullPathOf env baseDir subDir excludedFile in
      if disk st fullPath \<noteq> None then
        st\<lparr>disk := (disk st)(fullPath := None),
           deletedFiles := deletedFiles st @ [excludedFile],
           savedFiles :=
             removeFirst (\<lambda>f. pathRelative env (rootOf env baseDir subDir) f = excludedFile) (savedFiles st)\<rparr>
      else st)"

text \<open>
  \<open>saveSourceFiles\<close> up to the clean-up of the directories: the loop over the files, then
  the loop over \<open>excludedFiles\<close>.
\<close>

definition saveAndDelete :: "hostEnv \<Rightarrow> string \<Rightarrow> string \<Rightarrow> (string \<times> string) list \<Rightarrow> string \<Rightarrow> (string \<rightharpoonup> string) \<Rightarrow> saveState" where
  "saveAndDelete env chainName contractAddress files contractType disk0 =
     (let baseDir = baseDirOf env chainName contractAddress;
          subDir = subDirOf contractType;
          st = foldl (saveEntry env baseDir subDir)
                 \<lparr>disk = disk0, savedFiles = [], excludedFiles = [], exclusionReasons = Map.empty,
                  keptFiles = [], blacklistedFiles = [], deletedFiles = []\<rparr> files
      in foldl (deleteExcluded env baseDir subDir) st (excludedFiles st))"

text \<open>
  The manifest is written last, to \<open>audit-manifest.json\<close> in the same directory. Its text
  (\<open>JSON.stringify\<close> of the main contract that \<open>detectMainContract\<close> finds, and of the
  contract type) is a parameter here.
\<close>

definition saveSourceFiles :: "hostEnv \<Rightarrow> string \<Rightarrow> string \<Rightarrow> string \<Rightarrow> (string \<times> string) list \<Rightarrow> string \<Rightarrow> (string \<rightharpoonup> string) \<Rightarrow> saveState" where
  "saveSourceFiles env manifestText chainName contractAddress files contractType disk0 =
     (let st = saveAndDelete env chainName contractAddress files contractType disk0;
          auditManifestPath =
            fullPathOf env (baseDirOf env chainName contractAddress) (subDirOf contractType)
              ''audit-manifest.json''
      in st\<lparr>disk := (disk st)(auditManifestPath \<mapsto> manifestText)\<rparr>)"

text \<open>
  A host for the examples: \<open>path.join\<close> on segments that need no normalisation puts a
  slash between them, \<open>path.relative\<close> of a path below the directory drops the directory
  and the slash, and the blacklist file holds two patterns.
\<close>

fun joinSlash :: "string list \<Rightarrow> string" where
  "joinSlash [] = ''.''"
| "joinSlash [s] = s"
| "joinSlash (s # t # ts) = s @ CHR ''/'' # joinSlash (t # ts)"

definition exampleHost :: hostEnv where
  "exampleHost =
     \<lparr>pathJoin = joinSlash,
      pathRelative = (\<lambda>dir f. drop (Suc (length dir)) f),
      OUTPUT_DIR = ''/out'',
      blacklistFile = ConfigData (Some [''@openzeppelin/'', ''vendor/oz/''])\<rparr>"

section \<open>sourceParser.js: parseSourceCode\<close>

text \<open>
  The values \<open>JSON.parse\<close> returns. A finite number is a rational. An object is the list
  \<open>Object.entries\<close> gives for it: its own keys, each once, in the order of enumeration.
\<close>

datatype json =
    JNull
  | JBool bool
  | JNum rat
  | JStr string
  | JArr "json list"
  | JObj "(string \<times> json) list"

text \<open>Truthiness, as \<open>if (v)\<close> and \<open>v || d\<close> test it.\<close>

fun truthy :: "json \<Rightarrow> bool" where
  "truthy JNull = False"
| "truthy (JBool b) = b"
| "truthy (JNum n) = (n \<noteq> 0)"
| "truthy (JStr s) = (s \<noteq> [])"
| "truthy (JArr xs) = True"
| "truthy (JObj kvs) = True"

text \<open>
  Reading a property: on \<open>null\<close> it raises a TypeError; on an object it finds the own
  property or gives \<open>undefined\<close>. The names the parser reads (\<open>sources\<close>, \<open>content\<close>,
  \<open>settings\<close>, \<open>language\<close>) are no properties of an array, a string, a number or a boolean,
  nor of a prototype.
\<close>

datatype access = Raises | Undefined | Found json

fun getProp :: "json \<Rightarrow> string \<Rightarrow> access" where
  "getProp JNull k = Raises"
| "getProp (JObj kvs) k = (case map_of kvs k of None \<Rightarrow> Undefined | Some v \<Rightarrow> Found v)"
| "getProp v k = Undefined"

text \<open>\<open>v.k || d\<close> on a value that is not \<open>null\<close>.\<close>

definition propOr :: "json \<Rightarrow> string \<Rightarrow> json \<Rightarrow> json" where
  "propOr v k d = (case getProp v k of Found x \<Rightarrow> if truthy x then x else d | Raises \<Rightarrow> d | Undefined \<Rightarrow> d)"

text \<open>
  \<open>Object.entries(v)\<close>: the entries of an object, the indexed elements of an array, the
  indexed characters of a string, nothing for a number or a boolean; it raises on
  \<open>null\<close> (\<open>None\<close>).
\<close>

definition digitChar :: "nat \<Rightarrow> char" where
  "digitChar d = char_of (48 + d)"

fun decimal :: "nat \<Rightarrow> string" where
  "decimal n = (if n < 10 then [digitChar n] else decimal (n div 10) @ [digitChar (n mod 10)])"

definition indexed :: "json list \<Rightarrow> (string \<times> json) list" where
  "indexed xs = zip (map decimal [0..<length xs]) xs"

fun entries :: "json \<Rightarrow> (string \<times> json) list option" where
  "entries JNull = None"
| "entries (JObj kvs) = Some kvs"
| "entries (JArr xs) = Some (indexed xs)"
| "entries (JStr s) = Some (indexed (map (\<lambda>c. JStr [c]) s))"
| "entries v = Some []"

text \<open>
  \<open>files[filePath] = v\<close> on the object \<open>files\<close>: a new key goes last, a known key keeps its
  place, and the key \<open>__proto__\<close> adds no own property.
\<close>

definition assign :: "(string \<times> json) list \<Rightarrow> string \<Rightarrow> json \<Rightarrow> (string \<times> json) list" where
  "assign fs k v =
     (if k = ''__proto__'' then fs
      else if k \<in> set (map fst fs) then map (\<lambda>kv. if fst kv = k then (k, v) else kv) fs
      else fs @ [(k, v)])"

record parsedSource =
  srcType :: string
  srcFiles :: "(string \<times> json) list"
  srcSettings :: "json option"
  srcLanguage :: "json option"

text \<open>
  The loop of the standard JSON input:
  \<^verbatim>\<open>for (const [filePath, fileData] of Object.entries(jsonSource.sources)) {
     files[filePath] = fileData.content || ''; }\<close>
  \<open>None\<close> when an iteration raises.
\<close>

fun collectSources :: "(string \<times> json) list \<Rightarrow> (string \<times> json) list \<Rightarrow> (string \<times> json) list option" where
  "collectSources fs [] = Some fs"
| "collectSources fs ((filePath, fileData) # rest) =
     (case getProp fileData ''content'' of
        Raises \<Rightarrow> None
      | Undefined \<Rightarrow> collectSources (assign fs filePath (JStr [])) rest
      | Found v \<Rightarrow> collectSources (assign fs filePath (if truthy v then v else JStr [])) rest)"

text \<open>
  The loop of the object with file paths as keys:
  \<^verbatim>\<open>for (const [filePath, content] of Object.entries(jsonSource)) {
     if (typeof content === 'string') { files[filePath] = content; }
     else if (content.content) { files[filePath] = content.content; } }\<close>
\<close>

fun collectFlat :: "(string \<times> json) list \<Rightarrow> (string \<times> json) list \<Rightarrow> (string \<times> json) list option" where
  "collectFlat fs [] = Some fs"
| "collectFlat fs ((filePath, content) # rest) =
     (case content of
        JStr s \<Rightarrow> collectFlat (assign fs filePath content) rest
      | _ \<Rightarrow>
        (case getProp content ''content'' of
           Raises \<Rightarrow> None
         | Undefined \<Rightarrow> collectFlat fs rest
         | Found v \<Rightarrow> if truthy v then collectFlat (assign fs filePath v) rest else collectFlat fs rest))"

definition flatBranch :: "json \<Rightarrow> parsedSource option" where
  "flatBranch jsonSource =
     (case entries jsonSource of
        None \<Rightarrow> None
      | Some es \<Rightarrow>
        (case collectFlat [] es of
           None \<Rightarrow> None
         | Some fs \<Rightarrow>
             Some \<lparr>srcType = ''multi-file'', srcFiles = fs, srcSettings = None, srcLanguage = None\<rparr>))"

definition sourcesBranch :: "json \<Rightarrow> json \<Rightarrow> parsedSource option" where
  "sourcesBranch jsonSource sources =
     (case entries sources of
        None \<Rightarrow> None
      | Some es \<Rightarrow>
        (case collectSources [] es of
           None \<Rightarrow> None
         | Some fs \<Rightarrow>
             Some \<lparr>srcType = ''multi-file'', srcFiles = fs,
                   srcSettings = Some (propOr jsonSource ''settings'' (JObj [])),
                   srcLanguage = Some (propOr jsonSource ''language'' (JStr ''Solidity''))\<rparr>))"

text \<open>The body of the \<open>try\<close> after \<open>JSON.parse\<close>; \<open>None\<close> when it raises.\<close>

definition parseJsonSource :: "json \<Rightarrow> parsedSource option" where
  "parseJsonSource jsonSource =
     (case getProp jsonSource ''sources'' of
        Raises \<Rightarrow> None
      | Undefined \<Rightarrow> flatBranch jsonSource
      | Found sources \<Rightarrow>
          if truthy sources then sourcesBranch jsonSource sources else flatBranch jsonSource)"

definition singleFile :: "string \<Rightarrow> parsedSource" where
  "singleFile sourceCode =
     \<lparr>srcType = ''single-file'', srcFiles = [(''contract.sol'', JStr sourceCode)],
      srcSettings = None, srcLanguage = None\<rparr>"

text \<open>
  \<open>parseSourceCode(sourceCode)\<close>, with \<open>JSON.parse\<close> as the parameter \<open>jsonParse\<close> (\<open>None\<close>
  when it raises a SyntaxError).
\<close>

definition parseSourceCode :: "(string \<Rightarrow> json option) \<Rightarrow> string \<Rightarrow> parsedSource" where
  "parseSourceCode jsonParse sourceCode =
     (if sourceCode = [] then
        \<lparr>srcType = ''empty'', srcFiles = [], srcSettings = None, srcLanguage = None\<rparr>
      else
        (let trimmed = trim sourceCode;
             trimmedSource =
               (if startsWith trimmed ''{{'' \<and> endsWith trimmed ''}}'' then butlast (tl trimmed)
                else trimmed)
         in if startsWith trimmedSource ''{'' then
              (case jsonParse trimmedSource of
                 None \<Rightarrow> singleFile sourceCode
               | Some jsonSource \<Rightarrow>
                   (case parseJsonSource jsonSource of
                      None \<Rightarrow> singleFile sourceCode
                    | Some parsed \<Rightarrow> parsed))
            else singleFile sourceCode))"

text \<open>
  Two stand-ins for \<open>JSON.parse\<close> in the examples: one that rejects every text, and one
  that knows the text of a single standard JSON input.
\<close>

definition rejectJson :: "string \<Rightarrow> json option" where
  "rejectJson s = None"

definition exampleJson :: "string \<Rightarrow> json option" where
  "exampleJson s =
     (if s = ''{\"sources\":{\"A.sol\":{\"content\":\"X\"}}}''
      then Some (JObj [(''sources'', JObj [(''A.sol'', JObj [(''content'', JStr ''X'')])])])
      else None)"

section \<open>chainConfig.js and proxyDetector.js\<close>

record chainCfg =
  chainLabel :: string
  chainId :: nat
  rpcUrl :: string
  symbol :: string
  explorer :: string

definition CHAIN_CONFIG :: "(string \<times> chainCfg) list" where
  "CHAIN_CONFIG =
     [(''ethereum'', \<lparr>chainLabel = ''Ethereum'', chainId = 1, rpcUrl = ''https://ethereum.publicnode.com'',
                      symbol = ''ETH'', explorer = ''https://etherscan.io''\<rparr>),
      (''bsc'', \<lparr>chainLabel = ''BNB Smart Chain'', chainId = 56, rpcUrl = ''https://bsc.blockrazor.xyz'',
                 symbol = ''BNB'', explorer = ''https://bscscan.com''\<rparr>),
      (''base'', \<lparr>chainLabel = ''Base'', chainId = 8453, rpcUrl = ''https://base-rpc.publicnode.com'',
                  symbol = ''ETH'', explorer = ''https://basescan.org''\<rparr>),
      (''arbitrum'', \<lparr>chainLabel = ''Arbitrum One'', chainId = 42161, rpcUrl = ''https://arbitrum.publicnode.com'',
                      symbol = ''ETH'', explorer = ''https://arbiscan.io''\<rparr>)]"

text \<open>
  \<^verbatim>\<open>const normalizedName = chainName.toLowerCase().trim();
  return CHAIN_CONFIG[normalizedName] || null;\<close>
  The lookup also reaches the two all-lowercase properties every object inherits,
  \<open>constructor\<close> and \<open>__proto__\<close>: for them the result is truthy and has no \<open>rpcUrl\<close>.
\<close>

datatype chainLookup = NoChain | InheritedProperty | Chain chainCfg

definition getChainConfig :: "string \<Rightarrow> chainLookup" where
  "getChainConfig chainName =
     (let normalizedName = trim (map lowerChar chainName) in
      case map_of CHAIN_CONFIG normalizedName of
        Some cfg \<Rightarrow> Chain cfg
      | None \<Rightarrow>
          if normalizedName = ''constructor'' \<or> normalizedName = ''__proto__'' then InheritedProperty
          else NoChain)"

text \<open>
  What a provider of ethers answers, read-only: \<open>getCode\<close> (\<open>Inl\<close> the message of the error
  it raises), \<open>getStorage\<close> and a call of a view function without arguments that returns
  an address (\<open>None\<close> when the read or the call fails). \<open>ethers.getAddress\<close> is the
  parameter \<open>getAddress\<close> of the functions below: \<open>None\<close> when it raises on its argument.
  \<open>new ethers.JsonRpcProvider(url)\<close> is the provider the network has at \<open>url\<close>; without a
  URL ethers takes \<open>http://localhost:8545\<close>.
\<close>

record provider =
  getCode :: "string \<Rightarrow> string + string"
  getStorage :: "string \<Rightarrow> string \<Rightarrow> string option"
  callView :: "string \<Rightarrow> string \<Rightarrow> string option"

definition createProvider :: "(string \<Rightarrow> provider) \<Rightarrow> string \<Rightarrow> string + provider" where
  "createProvider net chainName =
     (case getChainConfig chainName of
        NoChain \<Rightarrow> Inl (''Unsupported chain: '' @ chainName)
      | InheritedProperty \<Rightarrow> Inr (net ''http://localhost:8545'')
      | Chain chainConfig \<Rightarrow> Inr (net (rpcUrl chainConfig)))"

definition EIP_1967_LOGIC_SLOT :: string where
  "EIP_1967_LOGIC_SLOT = ''0x360894a13ba1a3210667c828492db98dca3e2076cc3735a920a3ca505d382bbc''"

definition EIP_1967_BEACON_SLOT :: string where
  "EIP_1967_BEACON_SLOT = ''0xa3f0ad74e5423aebfd80d3ef4346578335a9a72aeaee59ff6cb3582b35133d50''"

definition OPEN_ZEPPELIN_IMPLEMENTATION_SLOT :: string where
  "OPEN_ZEPPELIN_IMPLEMENTATION_SLOT = ''0x7050c9e0f4ca769c69bd3a8ef740bc37934f8e2c036e5a723fd8ee048ed3f8c3''"

definition EIP_1822_LOGIC_SLOT :: string where
  "EIP_1822_LOGIC_SLOT = ''0xc5f16f0fcc639fa48a6947836d9850f504798523bf8c9a3a87d5876cf622bcf7''"

definition ZERO_ADDRESS :: string where
  "ZERO_ADDRESS = ''0x0000000000000000000000000000000000000000''"

text \<open>\<open>s.replace(p, r)\<close> with a string pattern replaces the first occurrence; \<open>padStart\<close>.\<close>

fun replaceFirst :: "string \<Rightarrow> string \<Rightarrow> string \<Rightarrow> string" where
  "replaceFirst p r [] = (if p = [] then r else [])"
| "replaceFirst p r (c # cs) =
     (if startsWith (c # cs) p then r @ drop (length p) (c # cs) else c # replaceFirst p r cs)"

definition padStart :: "nat \<Rightarrow> char \<Rightarrow> string \<Rightarrow> string" where
  "padStart n c s = replicate (n - length s) c @ s"

text \<open>
  \<^verbatim>\<open>const cleanValue = value.replace('0x', '').padStart(64, '0');
  const addressHex = '0x' + cleanValue.slice(-40);
  if (addressHex === '0x0000000000000000000000000000000000000000') { return null; }
  try { return ethers.getAddress(addressHex); } catch { return null; }\<close>
\<close>

definition readAddressFromSlot :: "(string \<Rightarrow> string option) \<Rightarrow> string \<Rightarrow> string option" where
  "readAddressFromSlot getAddress slotValue =
     (let cleanValue = padStart 64 (CHR ''0'') (replaceFirst ''0x'' [] slotValue);
          addressHex = ''0x'' @ drop (length cleanValue - 40) cleanValue
      in if addressHex = ZERO_ADDRESS then None else getAddress addressHex)"

text \<open>
  What a run asks of the provider, in the order of the requests: \<open>provider.getCode(a)\<close>,
  \<open>provider.getStorage(a, slot)\<close>, and the call of the view function \<open>name\<close> of the
  contract at \<open>a\<close>. A function that talks to the provider returns its result together
  with the requests it has made; \<open>withOps\<close> puts the requests made before in front.
\<close>

datatype chainOp =
    GetCode string
  | GetStorage string string
  | CallView string string

fun withOps :: "chainOp list \<Rightarrow> 'a \<times> chainOp list \<Rightarrow> 'a \<times> chainOp list" where
  "withOps before (r, ops) = (r, before @ ops)"

text \<open>
  \<^verbatim>\<open>try { const value = await provider.getStorage(proxyAddress, slot);
        return readAddressFromSlot(value); } catch { return null; }\<close>
\<close>

definition tryStorageSlot :: "provider \<Rightarrow> (string \<Rightarrow> string option) \<Rightarrow> string \<Rightarrow> string \<Rightarrow> string option \<times> chainOp list" where
  "tryStorageSlot prov getAddress proxyAddr slot =
     ((case getStorage prov proxyAddr slot of
         None \<Rightarrow> None
       | Some slotValue \<Rightarrow> readAddressFromSlot getAddress slotValue),
      [GetStorage proxyAddr slot])"

text \<open>
  \<^verbatim>\<open>try { const address = await contract[methodName]();
        if (address && address !== ZERO) { return ethers.getAddress(address); } } catch { }
  return null;\<close>
\<close>

definition tryContractCall :: "provider \<Rightarrow> (string \<Rightarrow> string option) \<Rightarrow> string \<Rightarrow> string \<Rightarrow> string option \<times> chainOp list" where
  "tryContractCall prov getAddress proxyAddr methodName =
     ((case callView prov proxyAddr methodName of
         None \<Rightarrow> None
       | Some address \<Rightarrow>
           if address \<noteq> [] \<and> address \<noteq> ZERO_ADDRESS then getAddress address else None),
      [CallView proxyAddr methodName])"

text \<open>
  The two patterns of \<open>parseEIP1167Bytecode\<close>, each with its captured group of 40
  hexadecimal digits:
  \<^verbatim>\<open>/^0x363d3d373d3d3d363d73([a-fA-F0-9]{40})5af43d82803e903d91602b57fd5bf3$/\<close>
  \<^verbatim>\<open>/^0x36600080376020363660203736[a-f0-9]*73([a-fA-F0-9]{40})[a-f0-9]*$/i\<close>
\<close>

definition atEnd :: "'a \<Rightarrow> string \<Rightarrow> 'a option" where
  "atEnd x rest = (if rest = [] then Some x else None)"

definition eip1167Standard :: "string \<Rightarrow> string option" where
  "eip1167Standard bytecode =
     rxm (Lit ''0x363d3d373d3d3d363d73'') bytecode
       (\<lambda>t. rxm (Rep 40 isHexChar) t
          (\<lambda>u. rxm (Lit ''5af43d82803e903d91602b57fd5bf3'') u (atEnd (take 40 t))))"

definition eip1167Alternative :: "string \<Rightarrow> string option" where
  "eip1167Alternative bytecode =
     rxm (Seqs [LitI ''0x36600080376020363660203736'', Many isHexChar, LitI ''73'']) bytecode
       (\<lambda>t. rxm (Rep 40 isHexChar) t
          (\<lambda>u. rxm (Many isHexChar) u (atEnd (take 40 t))))"

text \<open>
  \<^verbatim>\<open>for (const pattern of patterns) { const match = bytecode.match(pattern);
     if (match && match[1]) { try { return ethers.getAddress('0x' + match[1]); } catch { continue; } } }
  return null;\<close>
\<close>

fun firstAddress :: "(string \<Rightarrow> string option) \<Rightarrow> (string \<Rightarrow> string option) list \<Rightarrow> string \<Rightarrow> string option" where
  "firstAddress getAddress [] bytecode = None"
| "firstAddress getAddress (pat # pats) bytecode =
     (case pat bytecode of
        None \<Rightarrow> firstAddress getAddress pats bytecode
      | Some captured \<Rightarrow>
          (case getAddress (''0x'' @ captured) of
             Some a \<Rightarrow> Some a
           | None \<Rightarrow> firstAddress getAddress pats bytecode))"

definition parseEIP1167Bytecode :: "(string \<Rightarrow> string option) \<Rightarrow> string \<Rightarrow> string option" where
  "parseEIP1167Bytecode getAddress bytecode =
     firstAddress getAddress [eip1167Standard, eip1167Alternative] bytecode"

text \<open>The fields of the source record that \<open>detectProxy\<close> reads.\<close>

record sourceData =
  sdIsVerified :: bool
  sdIsProxy :: bool
  sdImplementation :: "string option"
  sdSourceCode :: "string option"
  sdConstructorArguments :: "string option"

text \<open>\<open>code && code !== '0x' && code !== '0x0'\<close>\<close>

definition hasCode :: "string \<Rightarrow> bool" where
  "hasCode code = (code \<noteq> [] \<and> code \<noteq> ''0x'' \<and> code \<noteq> ''0x0'')"

text \<open>
  The three textual signals of \<open>detectProxyFromSource\<close>:
  \<^verbatim>\<open>/contract\s+\w+\s+is\s+[^{]*Proxy/i\<close>
  \<^verbatim>\<open>/function\s+_implementation\s*\(\s*\)\s+internal\s+view\s+(?:virtual\s+)?override\s+returns\s*\(\s*address\s*\)/i\<close>
  \<^verbatim>\<open>/bytes32\s+(?:public\s+|private\s+)?constant\s+\w*STORAGE[_]?SLOT\w*\s*=\s*0x([a-fA-F0-9]{64})/i\<close>
\<close>

definition proxyInheritanceRx :: rx where
  "proxyInheritanceRx =
     Seqs [LitI ''contract'', Many1 isJsSpace, Many1 isWordChar, Many1 isJsSpace, LitI ''is'',
           Many1 isJsSpace, Many (\<lambda>c. c \<noteq> CHR ''{''), LitI ''Proxy'']"

definition implementationFunctionRx :: rx where
  "implementationFunctionRx =
     Seqs [LitI ''function'', Many1 isJsSpace, LitI ''_implementation'', Many isJsSpace, Lit ''('',
           Many isJsSpace, Lit '')'', Many1 isJsSpace, LitI ''internal'', Many1 isJsSpace, LitI ''view'',
           Many1 isJsSpace, Opt (Seqs [LitI ''virtual'', Many1 isJsSpace]), LitI ''override'',
           Many1 isJsSpace, LitI ''returns'', Many isJsSpace, Lit ''('', Many isJsSpace,
           LitI ''address'', Many isJsSpace, Lit '')'']"

definition storageSlotRx :: rx where
  "storageSlotRx =
     Seqs [LitI ''bytes32'', Many1 isJsSpace,
           Opt (Alt (Seqs [LitI ''public'', Many1 isJsSpace]) (Seqs [LitI ''private'', Many1 isJsSpace])),
           LitI ''constant'', Many1 isJsSpace, Many isWordChar, LitI ''STORAGE'', Opt (Lit ''_''),
           LitI ''SLOT'', Many isWordChar, Many isJsSpace, Lit ''='', Many isJsSpace, LitI ''0x'']"

definition storageSlotMatch :: "string \<Rightarrow> string option" where
  "storageSlotMatch sourceCode =
     rxSearch storageSlotRx (\<lambda>t. rxm (Rep 64 isHexChar) t (\<lambda>u. Some (take 64 t))) sourceCode"

text \<open>\<^verbatim>\<open>constructorArgs.match(/[a-fA-F0-9]{40}/g)\<close>: the matches from left to right, none overlapping.\<close>

function hexChunks :: "string \<Rightarrow> string list" where
  "hexChunks s =
     (if length s < 40 then []
      else if list_all isHexChar (take 40 s) then take 40 s # hexChunks (drop 40 s)
      else hexChunks (tl s))"
  by pat_completeness auto
termination
  by (relation "measure length") auto

text \<open>
  The loop over the address-shaped pieces of the constructor arguments; an iteration
  that raises goes on to the next piece.
\<close>

fun viaConstructorArgs :: "provider \<Rightarrow> (string \<Rightarrow> string option) \<Rightarrow> string list \<Rightarrow> string option \<times> chainOp list" where
  "viaConstructorArgs prov getAddress [] = (None, [])"
| "viaConstructorArgs prov getAddress (addrHex # others) =
     (case getAddress (''0x'' @ addrHex) of
        None \<Rightarrow> viaConstructorArgs prov getAddress others
      | Some potentialAddr \<Rightarrow>
          (case getCode prov potentialAddr of
             Inl raised \<Rightarrow>
               withOps [GetCode potentialAddr] (viaConstructorArgs prov getAddress others)
           | Inr code \<Rightarrow>
               if hasCode code then
                 (case tryContractCall prov getAddress potentialAddr ''implementation'' of
                    (impl, callOps) \<Rightarrow>
                      if truthyStr impl then (impl, GetCode potentialAddr # callOps)
                      else withOps (GetCode potentialAddr # callOps)
                             (viaConstructorArgs prov getAddress others))
               else withOps [GetCode potentialAddr] (viaConstructorArgs prov getAddress others)))"

text \<open>
  The custom storage slot: \<open>Inl ()\<close> when \<open>provider.getCode\<close> raises (the \<open>catch\<close> of
  \<open>detectProxyFromSource\<close> then returns \<open>null\<close>), otherwise what this part returns, \<open>None\<close>
  when it falls through.
\<close>

definition viaCustomSlot :: "provider \<Rightarrow> (string \<Rightarrow> string option) \<Rightarrow> string \<Rightarrow> string \<Rightarrow> (unit + string option) \<times> chainOp list" where
  "viaCustomSlot prov getAddress proxyAddr captured =
     (let customSlot = ''0x'' @ captured
      in case tryStorageSlot prov getAddress proxyAddr customSlot of
           (slotValue, slotOps) \<Rightarrow>
             if truthyStr slotValue then
               (case getCode prov (strOf slotValue) of
                  Inl raised \<Rightarrow> (Inl (), slotOps @ [GetCode (strOf slotValue)])
                | Inr code \<Rightarrow>
                    if hasCode code then (Inr slotValue, slotOps @ [GetCode (strOf slotValue)])
                    else
                      (case tryContractCall prov getAddress (strOf slotValue) ''implementation'' of
                         (implementation, callOps) \<Rightarrow>
                           (if truthyStr implementation then Inr implementation else Inr None,
                            slotOps @ [GetCode (strOf slotValue)] @ callOps)))
             else (Inr None, slotOps))"

definition detectProxyFromSource :: "provider \<Rightarrow> (string \<Rightarrow> string option) \<Rightarrow> string \<Rightarrow> sourceData \<Rightarrow> string option \<times> chainOp list" where
  "detectProxyFromSource prov getAddress proxyAddr sd =
     (let sourceCode = strOf (sdSourceCode sd);
          proxyInheritance = rxTest proxyInheritanceRx sourceCode;
          hasImplementationFunction = rxTest implementationFunctionRx sourceCode;
          slotMatch = storageSlotMatch sourceCode
      in if \<not> proxyInheritance \<and> \<not> hasImplementationFunction \<and> slotMatch = None then (None, [])
         else
           (case tryContractCall prov getAddress proxyAddr ''implementation'' of
              (implementation, callOps) \<Rightarrow>
                if truthyStr implementation then (implementation, callOps)
                else
                  (case (case slotMatch of None \<Rightarrow> (Inr None, [])
                         | Some captured \<Rightarrow> viaCustomSlot prov getAddress proxyAddr captured) of
                     (Inl raised, slotOps) \<Rightarrow> (None, callOps @ slotOps)
                   | (Inr (Some found), slotOps) \<Rightarrow> (Some found, callOps @ slotOps)
                   | (Inr None, slotOps) \<Rightarrow>
                       if truthyStr (sdConstructorArguments sd) then
                         withOps (callOps @ slotOps)
                           (viaConstructorArgs prov getAddress
                              (hexChunks (strOf (sdConstructorArguments sd))))
                       else (None, callOps @ slotOps))))"

text \<open>The object \<open>detectProxy\<close> returns; a key the code leaves out is \<open>None\<close>.\<close>

record proxyResult =
  isProxy :: bool
  proxyAddress :: string
  implementationAddress :: "string option"
  detectionMethod :: "string option"
  error :: "string option"

text \<open>
  The seven closures of the array \<open>detectionMethods\<close>, in the order of the array, each
  with the label its comment gives it. The label is not part of the closure: it only
  names the closure in the list of the probes a run has called. The fourth closure
  matches the bytecode already fetched and asks nothing of the provider.
\<close>

datatype probe =
    Eip1967Direct
  | OpenZeppelinSlot
  | Eip1822Uups
  | Eip1167Bytecode
  | Eip897Call
  | GnosisSafeCall
  | Eip1967Beacon

definition beaconProbe :: "provider \<Rightarrow> (string \<Rightarrow> string option) \<Rightarrow> string \<Rightarrow> string option \<times> chainOp list" where
  "beaconProbe prov getAddress contractAddr =
     (case tryStorageSlot prov getAddress contractAddr EIP_1967_BEACON_SLOT of
        (beaconAddress, slotOps) \<Rightarrow>
          if truthyStr beaconAddress then
            (case tryContractCall prov getAddress (strOf beaconAddress) ''implementation'' of
               (impl, callOps) \<Rightarrow>
                 if \<not> truthyStr impl
                 then withOps (slotOps @ callOps)
                        (tryContractCall prov getAddress (strOf beaconAddress) ''childImplementation'')
                 else (impl, slotOps @ callOps))
          else (None, slotOps))"

definition detectionMethods :: "provider \<Rightarrow> (string \<Rightarrow> string option) \<Rightarrow> string \<Rightarrow> string \<Rightarrow> (probe \<times> (unit \<Rightarrow> string option \<times> chainOp list)) list" where
  "detectionMethods prov getAddress contractAddr code =
     [(Eip1967Direct, \<lambda>u. tryStorageSlot prov getAddress contractAddr EIP_1967_LOGIC_SLOT),
      (OpenZeppelinSlot, \<lambda>u. tryStorageSlot prov getAddress contractAddr OPEN_ZEPPELIN_IMPLEMENTATION_SLOT),
      (Eip1822Uups, \<lambda>u. tryStorageSlot prov getAddress contractAddr EIP_1822_LOGIC_SLOT),
      (Eip1167Bytecode, \<lambda>u. (parseEIP1167Bytecode getAddress code, [])),
      (Eip897Call, \<lambda>u. tryContractCall prov getAddress contractAddr ''implementation''),
      (GnosisSafeCall, \<lambda>u. tryContractCall prov getAddress contractAddr ''masterCopy''),
      (Eip1967Beacon, \<lambda>u. beaconProbe prov getAddress contractAddr)]"

text \<open>
  \<^verbatim>\<open>for (const method of detectionMethods) { const implementation = await method();
     if (implementation) { return {...}; } }\<close>
  The loop gives the first truthy answer, the labels of the closures it has called, and
  what these closures have asked of the provider.
\<close>

fun runMethods :: "(probe \<times> (unit \<Rightarrow> string option \<times> chainOp list)) list \<Rightarrow> string option \<times> probe list \<times> chainOp list" where
  "runMethods [] = (None, [], [])"
| "runMethods ((label, method) # others) =
     (case method () of
        (implementation, ops) \<Rightarrow>
          if truthyStr implementation then (implementation, [label], ops)
          else (case runMethods others of
                  (found, called, later) \<Rightarrow> (found, label # called, ops @ later)))"

text \<open>
  A run of \<open>detectProxy\<close>: the object returned, the probes of the array that were called,
  everything the run has asked of the provider, in order, and the declared
  implementation the run has logged as invalid, if any.
\<close>

record detection =
  outcome :: proxyResult
  attempted :: "probe list"
  operations :: "chainOp list"
  invalidDeclared :: "string option"

text \<open>
  The declared-proxy shortcut:
  \<^verbatim>\<open>if (sourceData && sourceData.isProxy && sourceData.implementation) {
     try { const etherscanImpl = ethers.getAddress(sourceData.implementation); return {...}; }
     catch (error) { console.log(`Invalid implementation address from Etherscan: ...`); } }\<close>
  \<open>declaredImplementation\<close> is the string the shortcut hands to \<open>ethers.getAddress\<close>.
\<close>

definition declaredImplementation :: "sourceData option \<Rightarrow> string option" where
  "declaredImplementation sourceDat =
     (case sourceDat of
        None \<Rightarrow> None
      | Some sd \<Rightarrow> if sdIsProxy sd \<and> truthyStr (sdImplementation sd) then sdImplementation sd else None)"

text \<open>The part of \<open>detectProxy\<close> after the loop: source analysis, or no proxy.\<close>

definition afterProbes :: "provider \<Rightarrow> (string \<Rightarrow> string option) \<Rightarrow> string \<Rightarrow> sourceData option \<Rightarrow> proxyResult \<times> chainOp list" where
  "afterProbes prov getAddress contractAddr sourceDat =
     (let notProxy = \<lparr>isProxy = False, proxyAddress = contractAddr, implementationAddress = None,
                      detectionMethod = None, error = None\<rparr>
      in case sourceDat of
           None \<Rightarrow> (notProxy, [])
         | Some sd \<Rightarrow>
             if sdIsVerified sd then
               (case detectProxyFromSource prov getAddress contractAddr sd of
                  (sourceBasedImpl, sourceOps) \<Rightarrow>
                    if truthyStr sourceBasedImpl then
                      (\<lparr>isProxy = True, proxyAddress = contractAddr,
                        implementationAddress = sourceBasedImpl,
                        detectionMethod = Some ''source-code-analysis'', error = None\<rparr>,
                       sourceOps)
                    else (notProxy, sourceOps))
             else (notProxy, []))"

text \<open>The part of \<open>detectProxy\<close> from the array of closures on.\<close>

definition standardDetection :: "provider \<Rightarrow> (string \<Rightarrow> string option) \<Rightarrow> string \<Rightarrow> string \<Rightarrow> sourceData option \<Rightarrow> string option \<Rightarrow> detection" where
  "standardDetection prov getAddress contractAddr code sourceDat logged =
     (case runMethods (detectionMethods prov getAddress contractAddr code) of
        (implementation, called, ops) \<Rightarrow>
          if truthyStr implementation then
            \<lparr>outcome = \<lparr>isProxy = True, proxyAddress = contractAddr,
                         implementationAddress = implementation,
                         detectionMethod = None, error = None\<rparr>,
             attempted = called, operations = GetCode contractAddr # ops,
             invalidDeclared = logged\<rparr>
          else
            (case afterProbes prov getAddress contractAddr sourceDat of
               (result, sourceOps) \<Rightarrow>
                 \<lparr>outcome = result, attempted = called,
                  operations = GetCode contractAddr # ops @ sourceOps,
                  invalidDeclared = logged\<rparr>))"

text \<open>
  \<open>detectProxy(chainName, contractAddress, sourceData)\<close>. \<open>createProvider\<close> stands before
  the \<open>try\<close>: what it raises leaves \<open>detectProxy\<close> (\<open>Inl\<close>). An error of \<open>provider.getCode\<close>
  goes to the \<open>catch\<close> at the end, which returns an object with the message.
\<close>

definition detectProxy :: "(string \<Rightarrow> provider) \<Rightarrow> (string \<Rightarrow> string option) \<Rightarrow> string \<Rightarrow> string \<Rightarrow> sourceData option \<Rightarrow> string + detection" where
  "detectProxy net getAddress chainName contractAddr sourceDat =
     (case createProvider net chainName of
        Inl raised \<Rightarrow> Inl raised
      | Inr prov \<Rightarrow>
          Inr (case getCode prov contractAddr of
                 Inl message \<Rightarrow>
                   \<lparr>outcome = \<lparr>isProxy = False, proxyAddress = contractAddr,
                                implementationAddress = None, detectionMethod = None,
                                error = Some message\<rparr>,
                    attempted = [], operations = [GetCode contractAddr], invalidDeclared = None\<rparr>
               | Inr code \<Rightarrow>
                   if code = ''0x'' \<or> code = ''0x0'' then
                     \<lparr>outcome = \<lparr>isProxy = False, proxyAddress = contractAddr,
                                  implementationAddress = None, detectionMethod = None,
                                  error = Some ''No contract at address''\<rparr>,
                      attempted = [], operations = [GetCode contractAddr], invalidDeclared = None\<rparr>
                   else
                     (case declaredImplementation sourceDat of
                        None \<Rightarrow> standardDetection prov getAddress contractAddr code sourceDat None
                      | Some declared \<Rightarrow>
                          (case getAddress declared of
                             Some etherscanImpl \<Rightarrow>
                               \<lparr>outcome = \<lparr>isProxy = True, proxyAddress = contractAddr,
                                            implementationAddress = Some etherscanImpl,
                                            detectionMethod = Some ''etherscan-api'', error = None\<rparr>,
                                attempted = [], operations = [GetCode contractAddr], invalidDeclared = None\<rparr>
                           | None \<Rightarrow>
                               standardDetection prov getAddress contractAddr code sourceDat
                                 (Some declared)))))"

text \<open>
  A chain for the examples. \<open>shapeOnly\<close> stands in for \<open>ethers.getAddress\<close>: it accepts
  \<open>0x\<close> followed by 40 hexadecimal digits and returns it as it is. On \<open>exampleChain\<close>
  four addresses have code and no other address has:
  \<open>0x00000000000000000000000000000000000000a1\<close> holds the address
  \<open>0x00000000000000000000000000000000000000b2\<close> in its EIP-1967 logic slot;
  \<open>0x00000000000000000000000000000000000000c3\<close> has empty slots and no view function;
  \<open>0x00000000000000000000000000000000000000e5\<close> holds the address
  \<open>0x00000000000000000000000000000000000000b2\<close> in its EIP-1822 slot and nothing in the
  other slots;
  \<open>0x00000000000000000000000000000000000000f6\<close> has empty slots and answers
  \<open>masterCopy()\<close> with \<open>0x00000000000000000000000000000000000000b2\<close>.
\<close>

definition shapeOnly :: "string \<Rightarrow> string option" where
  "shapeOnly s =
     (if length s = 42 \<and> startsWith s ''0x'' \<and> list_all isHexChar (drop 2 s) then Some s else None)"

definition exampleChain :: provider where
  "exampleChain =
     \<lparr>getCode = (\<lambda>a. if a = ''0x00000000000000000000000000000000000000a1''
                        \<or> a = ''0x00000000000000000000000000000000000000c3''
                        \<or> a = ''0x00000000000000000000000000000000000000e5''
                        \<or> a = ''0x00000000000000000000000000000000000000f6''
                      then Inr ''0x6080'' else Inr ''0x''),
      getStorage = (\<lambda>a slot.
         if a = ''0x00000000000000000000000000000000000000a1'' \<and> slot = EIP_1967_LOGIC_SLOT
            \<or> a = ''0x00000000000000000000000000000000000000e5'' \<and> slot = EIP_1822_LOGIC_SLOT
         then Some ''0x00000000000000000000000000000000000000000000000000000000000000b2''
         else Some ''0x0000000000000000000000000000000000000000000000000000000000000000''),
      callView = (\<lambda>a methodName.
         if a = ''0x00000000000000000000000000000000000000f6'' \<and> methodName = ''masterCopy''
         then Some ''0x00000000000000000000000000000000000000b2'' else None)\<rparr>"

definition exampleNet :: "string \<Rightarrow> provider" where
  "exampleNet url = exampleChain"

definition declaredBad :: sourceData where
  "declaredBad =
     \<lparr>sdIsVerified = False, sdIsProxy = True, sdImplementation = Some ''not-an-address'',
      sdSourceCode = None, sdConstructorArguments = None\<rparr>"

definition declaredGood :: sourceData where
  "declaredGood =
     \<lparr>sdIsVerified = False, sdIsProxy = True,
      sdImplementation = Some ''0x00000000000000000000000000000000000000d4'',
      sdSourceCode = None, sdConstructorArguments = None\<rparr>"

text \<open>
  The vocabulary of the claims about the order of the probes. \<open>trustedDeclared\<close> is the
  address the shortcut trusts, if it trusts one. A probe is given as its label, its
  answer and what it asks of the provider; it has answered when the answer is truthy.
  \<open>followsChain probes contractAddr fallback d\<close> says of a run \<open>d\<close>: the probes it has
  called are the probes of the list up to and including the first one that answers, in
  the order of the list; after \<open>getCode\<close> it has asked of the provider what these probes
  ask, in that order, and nothing of a later probe; and it returns the answer of the
  first probe that answers, without a method tag, or, when no probe answers,
  \<open>fallback\<close>, after the requests of \<open>fallback\<close>.
\<close>

definition trustedDeclared :: "(string \<Rightarrow> string option) \<Rightarrow> sourceData option \<Rightarrow> string option" where
  "trustedDeclared getAddress sourceDat =
     (case declaredImplementation sourceDat of None \<Rightarrow> None | Some declared \<Rightarrow> getAddress declared)"

definition answered :: "probe \<times> string option \<times> chainOp list \<Rightarrow> bool" where
  "answered r = truthyStr (fst (snd r))"

definition followsChain :: "(probe \<times> string option \<times> chainOp list) list \<Rightarrow> string \<Rightarrow> proxyResult \<times> chainOp list \<Rightarrow> detection \<Rightarrow> bool" where
  "followsChain probes contractAddr fallback d =
     (let silent = takeWhile (\<lambda>r. \<not> answered r) probes;
          winner = take 1 (dropWhile (\<lambda>r. \<not> answered r) probes)
      in attempted d = map fst (silent @ winner)
         \<and> operations d =
             GetCode contractAddr # concat (map (\<lambda>r. snd (snd r)) (silent @ winner))
               @ (if winner = [] then snd fallback else [])
         \<and> outcome d =
             (case winner of
                [] \<Rightarrow> fst fallback
              | r # later \<Rightarrow>
                  \<lparr>isProxy = True, proxyAddress = contractAddr, implementationAddress = fst (snd r),
                   detectionMethod = None, error = None\<rparr>))"

section \<open>Properties of the comment stripper\<close>

subsection \<open>The scan\<close>

text \<open>
  A block comment without its \<open>*/\<close>: the inner loop stops at the last character of the
  input and hands it back to the main loop.
\<close>

lemma skipBlockComment_unterminated:
  "\<not> includes_str body ''*/'' \<Longrightarrow> body \<noteq> [] \<Longrightarrow>
   \<exists>p'. skipBlockComment p body = (p', [last body])"
proof (induction p body rule: skipBlockComment.induct)
  case (1 p a b cs)
  from "1.prems"(1) have ne: "\<not> (a = CHR ''*'' \<and> b = CHR ''/'')" and rest: "\<not> includes_str (b # cs) ''*/''"
    by auto
  from "1.IH" [OF ne rest] obtain p' where "skipBlockComment a (b # cs) = (p', [last (b # cs)])"
    by auto
  with ne show ?case by auto
qed simp_all

lemma scanStep_unterminated:
  assumes "\<not> includes_str body ''*/''" and "body \<noteq> []"
  shows "\<exists>p'. scanStep (p, CHR ''/'' # CHR ''*'' # body, res) = (Some p', [last body], res)"
proof -
  from skipBlockComment_unterminated [OF assms, of "CHR ''*''"] obtain p'
    where "skipBlockComment (CHR ''*'') body = (p', [last body])" by blast
  then show ?thesis by simp
qed

text \<open>
  A quote that stands right after a backslash does not end the inner loop of a string
  literal, whatever stands before the backslash: the loop copies it and goes on.
\<close>

lemma copyUntilQuote_after_backslash:
  "copyUntilQuote q backslash (q # cs) res = copyUntilQuote q q cs (res @ [q])"
  by simp

subsection \<open>Claims C7 and C8\<close>

text \<open>
  C7 fails on the code. An unterminated block comment is not discarded to the end of
  the input: the inner loop of the block comment stops one character before the end
  (its guard is \<open>i < len - 1\<close>, see \<open>skipBlockComment_unterminated\<close>), and the main loop
  then takes up the last character of the input in code. On the input \<open>a /* b\<close> the
  character \<open>b\<close> of the unterminated comment is in the output.
\<close>

theorem strip_unterminated_block_comment_keeps_last_char:
  "stripSolidityComments ''a /* b'' = ''a b\<newline>''"
  by code_simp

text \<open>
  C8 fails on the code. The inner loop of a string literal takes a quote as escaped
  whenever the character before it is a backslash (see \<open>copyUntilQuote_after_backslash\<close>),
  also when that backslash is itself the second half of an escaped backslash. On the
  Solidity text \<^verbatim>\<open>s="\\";t="x // y";\<close> the scanner therefore does not close the first
  literal at its closing quote; it closes it at the opening quote of the second
  literal, reads \<open>x\<close> as code and drops the rest of the literal \<^verbatim>\<open>"x // y"\<close> as a line
  comment. The text returned stops after that \<open>x\<close>, with a newline, and the second
  literal is not in it. On the line \<^verbatim>\<open>string s = "a // b";\<close>, which has no backslash, the literal is
  kept and the line comes back with its newline.
\<close>

theorem strip_cuts_literal_after_escaped_backslash:
  "stripSolidityComments
     (''s='' @ [dquote, backslash, backslash, dquote] @ '';t='' @ dquote # ''x // y'' @ dquote # '';'')
     = ''s='' @ [dquote, backslash, backslash, dquote] @ '';t='' @ dquote # ''x'' @ [newline]
   \<and> \<not> includes_str
         (stripSolidityComments
            (''s='' @ [dquote, backslash, backslash, dquote] @ '';t='' @ dquote # ''x // y'' @ dquote # '';''))
         (dquote # ''x // y'' @ [dquote])
   \<and> stripSolidityComments ''string s = \"a // b\";'' = ''string s = \"a // b\";'' @ [newline]"
  by code_simp

section \<open>Properties of the audit classifier\<close>

lemma categorizeEntry_live:
  "categorizeEntry mainC cats (filePath, content) =
     (if Some filePath = mainC then cats
      else if isPureInterface content then cats\<lparr>interfaces := interfaces cats @ [filePath]\<rparr>
      else cats\<lparr>criticalFiles := criticalFiles cats @ [filePath]\<rparr>)"
  by (simp add: categorizeEntry_def shouldExcludeFromAudit_def truthyStr_def)

lemma categorize_fold:
  "foldl (categorizeEntry mainC) cats files =
     cats\<lparr>criticalFiles := criticalFiles cats @ map fst (filter (keptAs mainC False) files),
          interfaces := interfaces cats @ map fst (filter (keptAs mainC True) files)\<rparr>"
proof (induction files arbitrary: cats)
  case Nil
  show ?case by simp
next
  case (Cons e files)
  obtain filePath content where e: "e = (filePath, content)" by (cases e) auto
  show ?case
    unfolding e by (simp add: Cons.IH categorizeEntry_live keptAs_def)
qed

text \<open>
  C3. \<open>shouldExcludeFromAudit\<close> returns \<open>{ shouldExclude: false, reason: 'custom-contract' }\<close>
  for every path. So \<open>categorizeFilesForAudit\<close> leaves \<open>excluded\<close>, \<open>excludedReasons\<close>,
  \<open>redFlagFiles\<close> and \<open>warnings\<close> empty for every file set, \<open>criticalFiles\<close> lists, in
  order, the files that are neither the main contract nor a pure interface, and
  \<open>interfaces\<close> lists the pure interfaces that are not the main contract.
\<close>

theorem categorize_never_excludes_or_flags:
  "shouldExcludeFromAudit filePath =
      \<lparr>shouldExclude = False, reason = ''custom-contract'', warning = None, exclusionNote = None\<rparr>
   \<and> excluded (categorizeFilesForAudit files mainC) = []
   \<and> excludedReasons (categorizeFilesForAudit files mainC) = Map.empty
   \<and> redFlagFiles (categorizeFilesForAudit files mainC) = []
   \<and> warnings (categorizeFilesForAudit files mainC) = []
   \<and> criticalFiles (categorizeFilesForAudit files mainC) =
        map fst (filter (\<lambda>(filePath, content). Some filePath \<noteq> mainC \<and> \<not> isPureInterface content) files)
   \<and> interfaces (categorizeFilesForAudit files mainC) =
        map fst (filter (\<lambda>(filePath, content). Some filePath \<noteq> mainC \<and> isPureInterface content) files)"
proof -
  have k1: "keptAs mainC False = (\<lambda>(filePath, content). Some filePath \<noteq> mainC \<and> \<not> isPureInterface content)"
    by (auto simp: keptAs_def fun_eq_iff)
  have k2: "keptAs mainC True = (\<lambda>(filePath, content). Some filePath \<noteq> mainC \<and> isPureInterface content)"
    by (auto simp: keptAs_def fun_eq_iff)
  show ?thesis
    by (simp add: categorizeFilesForAudit_def categorize_fold shouldExcludeFromAudit_def k1 k2)
qed

theorem categorize_never_excludes_or_flags_witness:
  "excluded (categorizeFilesForAudit
      [(''contracts/vendor/Foo.sol'', ''contract Foo {}''), (''IFoo.sol'', ''interface IFoo {}''),
       (''Main.sol'', ''contract Main {}'')] (Some ''Main.sol'')) = []
   \<and> redFlagFiles (categorizeFilesForAudit
      [(''contracts/vendor/Foo.sol'', ''contract Foo {}''), (''IFoo.sol'', ''interface IFoo {}''),
       (''Main.sol'', ''contract Main {}'')] (Some ''Main.sol'')) = []
   \<and> criticalFiles (categorizeFilesForAudit
      [(''contracts/vendor/Foo.sol'', ''contract Foo {}''), (''IFoo.sol'', ''interface IFoo {}''),
       (''Main.sol'', ''contract Main {}'')] (Some ''Main.sol'')) = [''contracts/vendor/Foo.sol'']
   \<and> interfaces (categorizeFilesForAudit
      [(''contracts/vendor/Foo.sol'', ''contract Foo {}''), (''IFoo.sol'', ''interface IFoo {}''),
       (''Main.sol'', ''contract Main {}'')] (Some ''Main.sol'')) = [''IFoo.sol'']"
proof -
  have a: "\<not> isPureInterface ''contract Foo {}''" by code_simp
  have b: "isPureInterface ''interface IFoo {}''" by code_simp
  show ?thesis
    using categorize_never_excludes_or_flags
      [of "''Main.sol''"
          "[(''contracts/vendor/Foo.sol'', ''contract Foo {}''), (''IFoo.sol'', ''interface IFoo {}''),
            (''Main.sol'', ''contract Main {}'')]"
          "Some ''Main.sol''"]
    by (simp add: a b)
qed

text \<open>
  C2 fails on the code: the path \<open>contracts/vendor/Foo.sol\<close> matches \<open>RED_FLAG_PATHS\<close>, and
  the classifier puts the file among the critical files with no red flag and no
  warning.
\<close>

theorem redflag_path_is_critical_not_flagged:
  "matchesRedFlag ''contracts/vendor/Foo.sol''
   \<and> redFlagFiles (categorizeFilesForAudit [(''contracts/vendor/Foo.sol'', ''contract Foo {}'')] None) = []
   \<and> warnings (categorizeFilesForAudit [(''contracts/vendor/Foo.sol'', ''contract Foo {}'')] None) = []
   \<and> criticalFiles (categorizeFilesForAudit [(''contracts/vendor/Foo.sol'', ''contract Foo {}'')] None)
        = [''contracts/vendor/Foo.sol'']"
proof -
  have a: "\<not> isPureInterface ''contract Foo {}''" by code_simp
  have m: "matchesRedFlag ''contracts/vendor/Foo.sol''" by code_simp
  show ?thesis
    by (simp add: m a categorizeFilesForAudit_def categorizeEntry_live)
qed

text \<open>
  C2, as amended. A file whose path matches a red-flag directory convention is never
  excluded, whatever its content: it is the main contract, an interface or a critical
  file. It is not given the red-flag classification and no warning is recorded for it.
\<close>

theorem redflag_path_kept_unflagged:
  assumes "matchesRedFlag filePath" and "(filePath, content) \<in> set files"
  shows "filePath \<notin> set (excluded (categorizeFilesForAudit files mainC))
       \<and> filePath \<notin> set (redFlagFiles (categorizeFilesForAudit files mainC))
       \<and> warnings (categorizeFilesForAudit files mainC) = []
       \<and> (Some filePath = mainC
          \<or> filePath \<in> set (interfaces (categorizeFilesForAudit files mainC))
          \<or> filePath \<in> set (criticalFiles (categorizeFilesForAudit files mainC)))"
proof -
  have "Some filePath = mainC \<or> keptAs mainC True (filePath, content) \<or> keptAs mainC False (filePath, content)"
    by (auto simp: keptAs_def)
  then have "Some filePath = mainC
     \<or> filePath \<in> fst ` set (filter (keptAs mainC True) files)
     \<or> filePath \<in> fst ` set (filter (keptAs mainC False) files)"
    using assms(2) by force
  then show ?thesis
    by (auto simp: categorizeFilesForAudit_def categorize_fold)
qed

theorem redflag_path_kept_unflagged_witness:
  "matchesRedFlag ''contracts/vendor/Foo.sol''
   \<and> (''contracts/vendor/Foo.sol'', ''contract Foo {}'') \<in> set [(''contracts/vendor/Foo.sol'', ''contract Foo {}'')]
   \<and> ''contracts/vendor/Foo.sol'' \<notin> set (excluded (categorizeFilesForAudit [(''contracts/vendor/Foo.sol'', ''contract Foo {}'')] None))
   \<and> ''contracts/vendor/Foo.sol'' \<notin> set (redFlagFiles (categorizeFilesForAudit [(''contracts/vendor/Foo.sol'', ''contract Foo {}'')] None))
   \<and> ''contracts/vendor/Foo.sol'' \<in> set (criticalFiles (categorizeFilesForAudit [(''contracts/vendor/Foo.sol'', ''contract Foo {}'')] None))"
proof -
  have m: "matchesRedFlag ''contracts/vendor/Foo.sol''" by code_simp
  have e: "(''contracts/vendor/Foo.sol'', ''contract Foo {}'') \<in> set [(''contracts/vendor/Foo.sol'', ''contract Foo {}'')]"
    by simp
  have a: "\<not> isPureInterface ''contract Foo {}''" by code_simp
  have c: "''contracts/vendor/Foo.sol'' \<in> set (criticalFiles (categorizeFilesForAudit [(''contracts/vendor/Foo.sol'', ''contract Foo {}'')] None))"
    by (simp add: a categorizeFilesForAudit_def categorizeEntry_live)
  from redflag_path_kept_unflagged [OF m e, of None] m e c show ?thesis by blast
qed
section \<open>Properties of the blacklist and of saveSourceFiles\<close>

lemma isBlacklisted_iff:
  "isBlacklisted cfg filePath \<longleftrightarrow>
     filePath \<noteq> [] \<and> (\<exists>pattern \<in> set (loadBlacklist cfg). includes_str (slashes filePath) pattern)"
  by (auto simp: isBlacklisted_def Let_def list_ex_iff)

lemma saveEntry_live:
  "saveEntry env baseDir subDir st (filePath, content) =
     (if isBlacklisted (blacklistFile env) (dropLeadingSlash filePath) then
        st\<lparr>blacklistedFiles := blacklistedFiles st @ [dropLeadingSlash filePath],
           excludedFiles := excludedFiles st @ [dropLeadingSlash filePath],
           exclusionReasons := (exclusionReasons st)(dropLeadingSlash filePath \<mapsto> ''blacklisted-vendor-library'')\<rparr>
      else
        st\<lparr>disk := (disk st)(fullPathOf env baseDir subDir (dropLeadingSlash filePath) \<mapsto>
                 (if endsWith (dropLeadingSlash filePath) ''.sol'' then stripSolidityComments content else content)),
           savedFiles := savedFiles st @ [fullPathOf env baseDir subDir (dropLeadingSlash filePath)],
           keptFiles := keptFiles st @ [dropLeadingSlash filePath]\<rparr>)"
  by (simp add: saveEntry_def shouldExcludeFromAudit_def Let_def)

lemma saveLoop_lists:
  "blacklistedFiles (foldl (saveEntry env baseDir subDir) st files) =
      blacklistedFiles st @ filter (isBlacklisted (blacklistFile env)) (map (dropLeadingSlash \<circ> fst) files)
   \<and> excludedFiles (foldl (saveEntry env baseDir subDir) st files) =
      excludedFiles st @ filter (isBlacklisted (blacklistFile env)) (map (dropLeadingSlash \<circ> fst) files)
   \<and> keptFiles (foldl (saveEntry env baseDir subDir) st files) =
      keptFiles st @ filter (\<lambda>p. \<not> isBlacklisted (blacklistFile env) p) (map (dropLeadingSlash \<circ> fst) files)"
proof (induction files arbitrary: st)
  case Nil
  show ?case by simp
next
  case (Cons e files)
  obtain filePath content where e: "e = (filePath, content)" by (cases e) auto
  show ?case unfolding e
    by (simp add: Cons.IH saveEntry_live)
qed

lemma deleteExcluded_fields:
  "blacklistedFiles (deleteExcluded env baseDir subDir st x) = blacklistedFiles st"
  "keptFiles (deleteExcluded env baseDir subDir st x) = keptFiles st"
  "excludedFiles (deleteExcluded env baseDir subDir st x) = excludedFiles st"
  by (simp_all add: deleteExcluded_def Let_def)

lemma deleteLoop_fields:
  "blacklistedFiles (foldl (deleteExcluded env baseDir subDir) st xs) = blacklistedFiles st
   \<and> keptFiles (foldl (deleteExcluded env baseDir subDir) st xs) = keptFiles st"
  by (induction xs arbitrary: st) (simp_all add: deleteExcluded_fields)

lemma deleteExcluded_gone:
  "disk (deleteExcluded env baseDir subDir st x) (fullPathOf env baseDir subDir x) = None"
  by (simp add: deleteExcluded_def Let_def)

lemma deleteExcluded_stays_gone:
  "disk st p = None \<Longrightarrow> disk (deleteExcluded env baseDir subDir st x) p = None"
  by (simp add: deleteExcluded_def Let_def)

lemma deleteLoop_stays_gone:
  "disk st p = None \<Longrightarrow> disk (foldl (deleteExcluded env baseDir subDir) st xs) p = None"
  by (induction xs arbitrary: st) (simp_all add: deleteExcluded_stays_gone)

lemma deleteLoop_gone:
  "x \<in> set xs \<Longrightarrow>
   disk (foldl (deleteExcluded env baseDir subDir) st xs) (fullPathOf env baseDir subDir x) = None"
proof (induction xs arbitrary: st)
  case Nil
  then show ?case by simp
next
  case (Cons y ys)
  show ?case
  proof (cases "x = y")
    case True
    then show ?thesis
      by (simp add: deleteLoop_stays_gone deleteExcluded_gone)
  next
    case False
    with Cons show ?thesis by simp
  qed
qed

text \<open>
  C5. Take a file of the parsed source whose path, after the leading slash is dropped,
  is not empty and contains a pattern of the blacklist (backslashes read as slashes).
  The iteration of the loop for that file leaves the disk and \<open>savedFiles\<close> as they are:
  the file is skipped before any write. After \<open>saveSourceFiles\<close> the path is among
  \<open>blacklistedFiles\<close>, not among \<open>keptFiles\<close>, and no file is stored on the disk at the
  place the file would have gone to (the loop over the excluded files removes what an
  earlier run or another entry left there), unless that place is the manifest's. Nothing
  in this depends on the red-flag table: a path under \<open>contracts/vendor/\<close> is skipped like
  any other. When the blacklist file is absent, the blacklist is empty and no path is
  blacklisted.
\<close>

theorem blacklisted_file_is_skipped:
  assumes entry: "(filePath, content) \<in> set files"
      and ne: "dropLeadingSlash filePath \<noteq> []"
      and pat: "pattern \<in> set (loadBlacklist (blacklistFile env))"
      and inc: "includes_str (slashes (dropLeadingSlash filePath)) pattern"
  shows "disk (saveEntry env baseDir subDir st (filePath, content)) = disk st
       \<and> savedFiles (saveEntry env baseDir subDir st (filePath, content)) = savedFiles st
       \<and> dropLeadingSlash filePath
            \<in> set (blacklistedFiles (saveSourceFiles env manifestText chainName contractAddress files contractType disk0))
       \<and> dropLeadingSlash filePath
            \<notin> set (keptFiles (saveSourceFiles env manifestText chainName contractAddress files contractType disk0))
       \<and> disk (saveAndDelete env chainName contractAddress files contractType disk0)
            (fullPathOf env (baseDirOf env chainName contractAddress) (subDirOf contractType)
               (dropLeadingSlash filePath)) = None
       \<and> (fullPathOf env (baseDirOf env chainName contractAddress) (subDirOf contractType)
               (dropLeadingSlash filePath)
            \<noteq> fullPathOf env (baseDirOf env chainName contractAddress) (subDirOf contractType)
               ''audit-manifest.json''
          \<longrightarrow> disk (saveSourceFiles env manifestText chainName contractAddress files contractType disk0)
                (fullPathOf env (baseDirOf env chainName contractAddress) (subDirOf contractType)
                   (dropLeadingSlash filePath)) = None)
       \<and> loadBlacklist ConfigAbsent = []
       \<and> \<not> isBlacklisted ConfigAbsent anyPath"
proof -
  let ?np = "dropLeadingSlash filePath"
  let ?b = "baseDirOf env chainName contractAddress"
  let ?s = "subDirOf contractType"
  let ?init = "\<lparr>disk = disk0, savedFiles = [], excludedFiles = [], exclusionReasons = Map.empty,
                  keptFiles = [], blacklistedFiles = [], deletedFiles = []\<rparr>"
  let ?st = "foldl (saveEntry env ?b ?s) ?init files"
  have bl: "isBlacklisted (blacklistFile env) ?np"
    using ne pat inc unfolding isBlacklisted_iff by blast
  have step: "disk (saveEntry env baseDir subDir st (filePath, content)) = disk st
       \<and> savedFiles (saveEntry env baseDir subDir st (filePath, content)) = savedFiles st"
    using bl by (simp add: saveEntry_live)
  have mem: "?np \<in> set (map (dropLeadingSlash \<circ> fst) files)"
    using entry by force
  have in_bl: "?np \<in> set (blacklistedFiles ?st)" and in_ex: "?np \<in> set (excludedFiles ?st)"
    and not_kept: "?np \<notin> set (keptFiles ?st)"
    using mem bl by (simp_all add: saveLoop_lists)
  have sad: "saveAndDelete env chainName contractAddress files contractType disk0
               = foldl (deleteExcluded env ?b ?s) ?st (excludedFiles ?st)"
    by (simp add: saveAndDelete_def Let_def)
  have gone: "disk (saveAndDelete env chainName contractAddress files contractType disk0)
                (fullPathOf env ?b ?s ?np) = None"
    unfolding sad by (rule deleteLoop_gone [OF in_ex])
  have lists: "blacklistedFiles (saveAndDelete env chainName contractAddress files contractType disk0) = blacklistedFiles ?st"
     "keptFiles (saveAndDelete env chainName contractAddress files contractType disk0) = keptFiles ?st"
    unfolding sad by (simp_all add: deleteLoop_fields)
  have r1: "?np \<in> set (blacklistedFiles (saveSourceFiles env manifestText chainName contractAddress files contractType disk0))"
    using in_bl lists by (simp add: saveSourceFiles_def Let_def)
  have r2: "?np \<notin> set (keptFiles (saveSourceFiles env manifestText chainName contractAddress files contractType disk0))"
    using not_kept lists by (simp add: saveSourceFiles_def Let_def)
  have r3: "fullPathOf env ?b ?s ?np \<noteq> fullPathOf env ?b ?s ''audit-manifest.json''
          \<longrightarrow> disk (saveSourceFiles env manifestText chainName contractAddress files contractType disk0)
                (fullPathOf env ?b ?s ?np) = None"
    using gone by (simp add: saveSourceFiles_def Let_def)
  have r4: "loadBlacklist ConfigAbsent = []" by (simp add: loadBlacklist_def)
  have r5: "\<not> isBlacklisted ConfigAbsent anyPath"
    by (simp add: isBlacklisted_def loadBlacklist_def)
  from step r1 r2 gone r3 r4 r5 show ?thesis by blast
qed

theorem blacklisted_file_is_skipped_witness:
  "(''contracts/vendor/oz/ERC20.sol'', ''contract ERC20 {}'')
      \<in> set [(''contracts/Main.sol'', ''contract Main {}''), (''contracts/vendor/oz/ERC20.sol'', ''contract ERC20 {}'')]
   \<and> dropLeadingSlash ''contracts/vendor/oz/ERC20.sol'' \<noteq> []
   \<and> ''vendor/oz/'' \<in> set (loadBlacklist (blacklistFile exampleHost))
   \<and> includes_str (slashes (dropLeadingSlash ''contracts/vendor/oz/ERC20.sol'')) ''vendor/oz/''
   \<and> matchesRedFlag ''contracts/vendor/oz/ERC20.sol''
   \<and> blacklistedFiles (saveSourceFiles exampleHost ''{}'' ''ethereum'' ''0xabc''
        [(''contracts/Main.sol'', ''contract Main {}''), (''contracts/vendor/oz/ERC20.sol'', ''contract ERC20 {}'')]
        ''main'' Map.empty) = [''contracts/vendor/oz/ERC20.sol'']
   \<and> keptFiles (saveSourceFiles exampleHost ''{}'' ''ethereum'' ''0xabc''
        [(''contracts/Main.sol'', ''contract Main {}''), (''contracts/vendor/oz/ERC20.sol'', ''contract ERC20 {}'')]
        ''main'' Map.empty) = [''contracts/Main.sol'']
   \<and> disk (saveSourceFiles exampleHost ''{}'' ''ethereum'' ''0xabc''
        [(''contracts/Main.sol'', ''contract Main {}''), (''contracts/vendor/oz/ERC20.sol'', ''contract ERC20 {}'')]
        ''main'' Map.empty) ''/out/ethereum/0xabc/contracts/vendor/oz/ERC20.sol'' = None
   \<and> disk (saveSourceFiles exampleHost ''{}'' ''ethereum'' ''0xabc''
        [(''contracts/Main.sol'', ''contract Main {}''), (''contracts/vendor/oz/ERC20.sol'', ''contract ERC20 {}'')]
        ''main'' Map.empty) ''/out/ethereum/0xabc/contracts/Main.sol'' = Some ''contract Main {}\<newline>''"
proof -
  let ?files = "[(''contracts/Main.sol'', ''contract Main {}''), (''contracts/vendor/oz/ERC20.sol'', ''contract ERC20 {}'')]"
  have h1: "(''contracts/vendor/oz/ERC20.sol'', ''contract ERC20 {}'') \<in> set ?files" by simp
  have h2: "dropLeadingSlash ''contracts/vendor/oz/ERC20.sol'' \<noteq> []" by (simp add: dropLeadingSlash_def)
  have h3: "''vendor/oz/'' \<in> set (loadBlacklist (blacklistFile exampleHost))"
    by (simp add: exampleHost_def loadBlacklist_def)
  have h4: "includes_str (slashes (dropLeadingSlash ''contracts/vendor/oz/ERC20.sol'')) ''vendor/oz/''"
    by code_simp
  have h5: "matchesRedFlag ''contracts/vendor/oz/ERC20.sol''" by code_simp
  have np: "dropLeadingSlash ''contracts/vendor/oz/ERC20.sol'' = ''contracts/vendor/oz/ERC20.sol''"
    by (simp add: dropLeadingSlash_def)
  have np2: "dropLeadingSlash ''contracts/Main.sol'' = ''contracts/Main.sol''"
    by (simp add: dropLeadingSlash_def)
  have b1: "isBlacklisted (blacklistFile exampleHost) ''contracts/vendor/oz/ERC20.sol''" by code_simp
  have b2: "\<not> isBlacklisted (blacklistFile exampleHost) ''contracts/Main.sol''" by code_simp
  have sc: "stripSolidityComments ''contract Main {}'' = ''contract Main {}\<newline>''" by code_simp
  have ew: "endsWith ''contracts/Main.sol'' ''.sol''" by code_simp
  have fp1: "fullPathOf exampleHost (baseDirOf exampleHost ''ethereum'' ''0xabc'') (subDirOf ''main'') ''contracts/vendor/oz/ERC20.sol''
        = ''/out/ethereum/0xabc/contracts/vendor/oz/ERC20.sol''"
    by (simp add: fullPathOf_def baseDirOf_def subDirOf_def exampleHost_def)
  have fp2: "fullPathOf exampleHost (baseDirOf exampleHost ''ethereum'' ''0xabc'') (subDirOf ''main'') ''contracts/Main.sol''
        = ''/out/ethereum/0xabc/contracts/Main.sol''"
    by (simp add: fullPathOf_def baseDirOf_def subDirOf_def exampleHost_def)
  have fp3: "fullPathOf exampleHost (baseDirOf exampleHost ''ethereum'' ''0xabc'') (subDirOf ''main'') ''audit-manifest.json''
        = ''/out/ethereum/0xabc/audit-manifest.json''"
    by (simp add: fullPathOf_def baseDirOf_def subDirOf_def exampleHost_def)
  have lists: "blacklistedFiles (saveSourceFiles exampleHost ''{}'' ''ethereum'' ''0xabc'' ?files ''main'' Map.empty)
                 = [''contracts/vendor/oz/ERC20.sol'']
     \<and> keptFiles (saveSourceFiles exampleHost ''{}'' ''ethereum'' ''0xabc'' ?files ''main'' Map.empty)
                 = [''contracts/Main.sol'']
     \<and> disk (saveSourceFiles exampleHost ''{}'' ''ethereum'' ''0xabc'' ?files ''main'' Map.empty)
          ''/out/ethereum/0xabc/contracts/Main.sol'' = Some ''contract Main {}\<newline>''"
    by (simp add: saveSourceFiles_def saveAndDelete_def Let_def saveEntry_live np np2 b1 b2 sc ew
        fp1 fp2 fp3 deleteExcluded_def)
  from blacklisted_file_is_skipped [OF h1 h2 h3 h4,
      of undefined undefined undefined "''{}''" "''ethereum''" "''0xabc''" "''main''" Map.empty undefined]
  have "disk (saveSourceFiles exampleHost ''{}'' ''ethereum'' ''0xabc'' ?files ''main'' Map.empty)
          ''/out/ethereum/0xabc/contracts/vendor/oz/ERC20.sol'' = None"
    by (simp add: np fp1 fp3)
  with h1 h2 h3 h4 h5 lists show ?thesis by blast
qed
section \<open>Properties of parseSourceCode\<close>

lemma parseJsonSource_type:
  "parseJsonSource jsonSource = Some parsed \<Longrightarrow> srcType parsed = ''multi-file''"
  by (auto simp: parseJsonSource_def flatBranch_def sourcesBranch_def
      split: access.splits option.splits if_splits)

lemma parseSourceCode_cases:
  "parseSourceCode jsonParse sourceCode = singleFile sourceCode
   \<or> srcType (parseSourceCode jsonParse sourceCode) = ''multi-file''
   \<or> srcType (parseSourceCode jsonParse sourceCode) = ''empty''"
  by (auto simp: parseSourceCode_def Let_def dest: parseJsonSource_type split: option.splits)

lemma parseSourceCode_single:
  assumes "srcType (parseSourceCode jsonParse sourceCode) = ''single-file''"
  shows "parseSourceCode jsonParse sourceCode = singleFile sourceCode"
  using parseSourceCode_cases [of jsonParse sourceCode] assms by auto

text \<open>
  C9 fails on the code for an input of white space only: the guard at the head of
  \<open>parseSourceCode\<close> tests for the empty string, before the input is trimmed.
\<close>

theorem parse_whitespace_only_counterexample:
  "trim ''   '' = []
   \<and> srcType (parseSourceCode rejectJson ''   '') = ''single-file''
   \<and> srcFiles (parseSourceCode rejectJson ''   '') = [(''contract.sol'', JStr ''   '')]
   \<and> srcType (parseSourceCode rejectJson ''   '') \<noteq> ''empty''
   \<and> srcFiles (parseSourceCode rejectJson ''   '') \<noteq> []"
  by code_simp

text \<open>
  C9, as amended. For an input that is empty or white space only: the empty string gives
  the result of type \<open>empty\<close> with no files; any other such input is treated as a single
  file, of type \<open>single-file\<close>, with \<open>contract.sol\<close> mapped to the input as it is.
\<close>

theorem parse_blank_input:
  assumes "trim sourceCode = []"
  shows "parseSourceCode jsonParse sourceCode =
           (if sourceCode = [] then
              \<lparr>srcType = ''empty'', srcFiles = [], srcSettings = None, srcLanguage = None\<rparr>
            else
              \<lparr>srcType = ''single-file'', srcFiles = [(''contract.sol'', JStr sourceCode)],
               srcSettings = None, srcLanguage = None\<rparr>)"
  using assms by (simp add: parseSourceCode_def singleFile_def Let_def)

theorem parse_blank_input_witness:
  "trim '' \<newline> '' = []
   \<and> parseSourceCode rejectJson '' \<newline> '' =
       \<lparr>srcType = ''single-file'', srcFiles = [(''contract.sol'', JStr '' \<newline> '')],
        srcSettings = None, srcLanguage = None\<rparr>
   \<and> trim [] = []
   \<and> parseSourceCode rejectJson [] =
       \<lparr>srcType = ''empty'', srcFiles = [], srcSettings = None, srcLanguage = None\<rparr>"
proof -
  have h: "trim '' \<newline> '' = []" by code_simp
  have h0: "trim [] = []" by code_simp
  from parse_blank_input [OF h, of rejectJson] parse_blank_input [OF h0, of rejectJson] h h0
  show ?thesis by simp
qed

text \<open>
  C10. When \<open>parseSourceCode\<close> takes \<open>x\<close> for a single file, the only file of the result
  is \<open>contract.sol\<close>, its content is \<open>x\<close>, and parsing that content gives the same result
  again.
\<close>

theorem parse_single_file_idempotent:
  assumes "srcType (parseSourceCode jsonParse x) = ''single-file''"
  shows "srcFiles (parseSourceCode jsonParse x) = [(''contract.sol'', JStr x)]
       \<and> map_of (srcFiles (parseSourceCode jsonParse x)) ''contract.sol'' = Some (JStr x)
       \<and> (case map_of (srcFiles (parseSourceCode jsonParse x)) ''contract.sol'' of
             Some (JStr c) \<Rightarrow>
               c = x \<and> parseSourceCode jsonParse c = parseSourceCode jsonParse x
               \<and> srcType (parseSourceCode jsonParse c) = ''single-file''
               \<and> map_of (srcFiles (parseSourceCode jsonParse c)) ''contract.sol'' = Some (JStr x)
           | _ \<Rightarrow> False)"
proof -
  have s: "parseSourceCode jsonParse x = singleFile x"
    by (rule parseSourceCode_single [OF assms])
  have f: "srcFiles (parseSourceCode jsonParse x) = [(''contract.sol'', JStr x)]"
    by (simp add: s singleFile_def)
  show ?thesis using assms by (simp add: f)
qed

theorem parse_single_file_idempotent_witness:
  "srcType (parseSourceCode exampleJson ''contract A {}'') = ''single-file''
   \<and> srcFiles (parseSourceCode exampleJson ''contract A {}'') = [(''contract.sol'', JStr ''contract A {}'')]
   \<and> map_of (srcFiles (parseSourceCode exampleJson ''contract A {}'')) ''contract.sol'' = Some (JStr ''contract A {}'')
   \<and> parseSourceCode exampleJson ''contract A {}'' =
       \<lparr>srcType = ''single-file'', srcFiles = [(''contract.sol'', JStr ''contract A {}'')],
        srcSettings = None, srcLanguage = None\<rparr>"
proof -
  have h: "srcType (parseSourceCode exampleJson ''contract A {}'') = ''single-file''" by code_simp
  have e: "parseSourceCode exampleJson ''contract A {}'' =
       \<lparr>srcType = ''single-file'', srcFiles = [(''contract.sol'', JStr ''contract A {}'')],
        srcSettings = None, srcLanguage = None\<rparr>" by code_simp
  from parse_single_file_idempotent [OF h] h e show ?thesis by simp
qed
section \<open>Properties of detectProxy\<close>

lemma runMethods_none:
  "dropWhile (\<lambda>r. \<not> answered r) (map (\<lambda>m. (fst m, snd m ())) ms) = [] \<Longrightarrow>
   runMethods ms = (None, map fst ms, concat (map (\<lambda>m. snd (snd m ())) ms))"
proof (induction ms)
  case Nil
  show ?case by simp
next
  case (Cons m ms)
  obtain label closure where m: "m = (label, closure)" by (cases m) auto
  obtain implementation ops where c: "closure () = (implementation, ops)" by (cases "closure ()") auto
  from Cons.prems have na: "\<not> truthyStr implementation"
    and rest: "dropWhile (\<lambda>r. \<not> answered r) (map (\<lambda>m. (fst m, snd m ())) ms) = []"
    unfolding m by (auto simp: answered_def c split: if_splits)
  from Cons.IH [OF rest] na show ?case unfolding m by (simp add: c)
qed

lemma runMethods_some:
  "dropWhile (\<lambda>r. \<not> answered r) (map (\<lambda>m. (fst m, snd m ())) ms) = r # later \<Longrightarrow>
   runMethods ms =
     (fst (snd r),
      map fst (takeWhile (\<lambda>r. \<not> answered r) (map (\<lambda>m. (fst m, snd m ())) ms)) @ [fst r],
      concat (map (\<lambda>r. snd (snd r)) (takeWhile (\<lambda>r. \<not> answered r) (map (\<lambda>m. (fst m, snd m ())) ms)))
        @ snd (snd r))"
proof (induction ms)
  case Nil
  then show ?case by simp
next
  case (Cons m0 ms)
  obtain label closure where m0: "m0 = (label, closure)" by (cases m0) auto
  obtain implementation ops where c: "closure () = (implementation, ops)" by (cases "closure ()") auto
  show ?case
  proof (cases "truthyStr implementation")
    case True
    with Cons.prems have "r = (label, implementation, ops)" unfolding m0 by (simp add: answered_def c)
    with True show ?thesis unfolding m0 by (simp add: answered_def c)
  next
    case False
    with Cons.prems have "dropWhile (\<lambda>r. \<not> answered r) (map (\<lambda>m. (fst m, snd m ())) ms) = r # later"
      unfolding m0 by (simp add: answered_def c)
    from Cons.IH [OF this] False show ?thesis unfolding m0 by (simp add: answered_def c)
  qed
qed

lemma followsChain_none:
  assumes "dropWhile (\<lambda>r. \<not> answered r) probes = []"
  shows "followsChain probes contractAddr fallback d =
          (attempted d = map fst probes
           \<and> operations d = GetCode contractAddr # concat (map (\<lambda>r. snd (snd r)) probes) @ snd fallback
           \<and> outcome d = fst fallback)"
proof -
  from assms have all: "takeWhile (\<lambda>r. \<not> answered r) probes = probes"
    by (metis takeWhile_dropWhile_id append_Nil2)
  show ?thesis unfolding followsChain_def Let_def assms all by simp
qed

lemma followsChain_some:
  assumes "dropWhile (\<lambda>r. \<not> answered r) probes = r # later"
  shows "followsChain probes contractAddr fallback d =
          (attempted d = map fst (takeWhile (\<lambda>r. \<not> answered r) probes) @ [fst r]
           \<and> operations d =
               GetCode contractAddr # concat (map (\<lambda>r. snd (snd r)) (takeWhile (\<lambda>r. \<not> answered r) probes))
                 @ snd (snd r)
           \<and> outcome d =
               \<lparr>isProxy = True, proxyAddress = contractAddr, implementationAddress = fst (snd r),
                detectionMethod = None, error = None\<rparr>)"
  unfolding followsChain_def Let_def assms by simp

lemma standardDetection_chain:
  "followsChain (map (\<lambda>m. (fst m, snd m ())) (detectionMethods prov getAddress contractAddr code))
     contractAddr (afterProbes prov getAddress contractAddr sourceDat)
     (standardDetection prov getAddress contractAddr code sourceDat logged)
   \<and> invalidDeclared (standardDetection prov getAddress contractAddr code sourceDat logged) = logged"
proof -
  let ?ms = "detectionMethods prov getAddress contractAddr code"
  let ?rs = "map (\<lambda>m. (fst m, snd m ())) ?ms"
  obtain result sourceOps where ap: "afterProbes prov getAddress contractAddr sourceDat = (result, sourceOps)"
    by (cases "afterProbes prov getAddress contractAddr sourceDat") auto
  show ?thesis
  proof (cases "dropWhile (\<lambda>r. \<not> answered r) ?rs")
    case Nil
    have rm: "runMethods ?ms = (None, map fst ?ms, concat (map (\<lambda>m. snd (snd m ())) ?ms))"
      by (rule runMethods_none [OF Nil])
    have sd: "standardDetection prov getAddress contractAddr code sourceDat logged =
            \<lparr>outcome = result, attempted = map fst ?ms,
             operations = GetCode contractAddr # concat (map (\<lambda>m. snd (snd m ())) ?ms) @ sourceOps,
             invalidDeclared = logged\<rparr>"
      unfolding standardDetection_def rm ap by (simp add: truthyStr_def)
    show ?thesis
      unfolding followsChain_none [OF Nil] sd ap by (simp add: comp_def)
  next
    case (Cons r later)
    then have a: "answered r" using hd_dropWhile [of "\<lambda>r. \<not> answered r" ?rs] by auto
    have rm: "runMethods ?ms =
     (fst (snd r),
      map fst (takeWhile (\<lambda>r. \<not> answered r) ?rs) @ [fst r],
      concat (map (\<lambda>r. snd (snd r)) (takeWhile (\<lambda>r. \<not> answered r) ?rs)) @ snd (snd r))"
      by (rule runMethods_some [OF Cons])
    have sd: "standardDetection prov getAddress contractAddr code sourceDat logged =
            \<lparr>outcome = \<lparr>isProxy = True, proxyAddress = contractAddr, implementationAddress = fst (snd r),
                          detectionMethod = None, error = None\<rparr>,
             attempted = map fst (takeWhile (\<lambda>r. \<not> answered r) ?rs) @ [fst r],
             operations = GetCode contractAddr
                # concat (map (\<lambda>r. snd (snd r)) (takeWhile (\<lambda>r. \<not> answered r) ?rs)) @ snd (snd r),
             invalidDeclared = logged\<rparr>"
      unfolding standardDetection_def rm using a by (simp add: answered_def)
    show ?thesis
      unfolding followsChain_some [OF Cons] sd by simp
  qed
qed

lemma probes_of_detectionMethods:
  "map (\<lambda>m. (fst m, snd m ())) (detectionMethods prov getAddress contractAddr code) =
     [(Eip1967Direct, fst (tryStorageSlot prov getAddress contractAddr EIP_1967_LOGIC_SLOT),
         [GetStorage contractAddr EIP_1967_LOGIC_SLOT]),
      (OpenZeppelinSlot, fst (tryStorageSlot prov getAddress contractAddr OPEN_ZEPPELIN_IMPLEMENTATION_SLOT),
         [GetStorage contractAddr OPEN_ZEPPELIN_IMPLEMENTATION_SLOT]),
      (Eip1822Uups, fst (tryStorageSlot prov getAddress contractAddr EIP_1822_LOGIC_SLOT),
         [GetStorage contractAddr EIP_1822_LOGIC_SLOT]),
      (Eip1167Bytecode, parseEIP1167Bytecode getAddress code, []),
      (Eip897Call, fst (tryContractCall prov getAddress contractAddr ''implementation''),
         [CallView contractAddr ''implementation'']),
      (GnosisSafeCall, fst (tryContractCall prov getAddress contractAddr ''masterCopy''),
         [CallView contractAddr ''masterCopy'']),
      (Eip1967Beacon, fst (beaconProbe prov getAddress contractAddr),
         snd (beaconProbe prov getAddress contractAddr))]"
  by (simp add: detectionMethods_def tryStorageSlot_def tryContractCall_def)

lemma beaconProbe_ops:
  "snd (beaconProbe prov getAddress contractAddr) =
     GetStorage contractAddr EIP_1967_BEACON_SLOT #
       (case fst (tryStorageSlot prov getAddress contractAddr EIP_1967_BEACON_SLOT) of
          None \<Rightarrow> []
        | Some beacon \<Rightarrow>
            if beacon = [] then []
            else CallView beacon ''implementation'' #
                   (if truthyStr (fst (tryContractCall prov getAddress beacon ''implementation'')) then []
                    else [CallView beacon ''childImplementation'']))"
  by (simp add: beaconProbe_def tryStorageSlot_def tryContractCall_def truthyStr_def strOf_def
           split: option.splits)

lemma detectProxy_deployed:
  assumes prov: "createProvider net chainName = Inr prov"
      and code: "getCode prov contractAddr = Inr code"
      and deployed: "code \<noteq> ''0x'' \<and> code \<noteq> ''0x0''"
  shows "detectProxy net getAddress chainName contractAddr sourceDat =
     Inr (case trustedDeclared getAddress sourceDat of
            Some etherscanImpl \<Rightarrow>
              \<lparr>outcome = \<lparr>isProxy = True, proxyAddress = contractAddr,
                           implementationAddress = Some etherscanImpl,
                           detectionMethod = Some ''etherscan-api'', error = None\<rparr>,
               attempted = [], operations = [GetCode contractAddr], invalidDeclared = None\<rparr>
          | None \<Rightarrow> standardDetection prov getAddress contractAddr code sourceDat
                      (declaredImplementation sourceDat))"
  using prov code deployed
  by (simp add: detectProxy_def trustedDeclared_def split: option.splits)

lemma afterProbes_outcome:
  "fst (afterProbes prov getAddress contractAddr sourceDat) =
     (case sourceDat of
        None \<Rightarrow>
          \<lparr>isProxy = False, proxyAddress = contractAddr, implementationAddress = None,
           detectionMethod = None, error = None\<rparr>
      | Some sd \<Rightarrow>
          if sdIsVerified sd \<and> truthyStr (fst (detectProxyFromSource prov getAddress contractAddr sd))
          then \<lparr>isProxy = True, proxyAddress = contractAddr,
                implementationAddress = fst (detectProxyFromSource prov getAddress contractAddr sd),
                detectionMethod = Some ''source-code-analysis'', error = None\<rparr>
          else \<lparr>isProxy = False, proxyAddress = contractAddr, implementationAddress = None,
                detectionMethod = None, error = None\<rparr>)"
  by (simp add: afterProbes_def Let_def split: option.splits prod.splits)

lemma followsChain_outcome:
  assumes "followsChain probes contractAddr fallback d"
  shows "outcome d =
           (case List.find answered probes of
              None \<Rightarrow> fst fallback
            | Some r \<Rightarrow>
                \<lparr>isProxy = True, proxyAddress = contractAddr, implementationAddress = fst (snd r),
                 detectionMethod = None, error = None\<rparr>)"
proof (cases "dropWhile (\<lambda>r. \<not> answered r) probes")
  case Nil
  have "List.find answered probes = None" unfolding find_dropWhile comp_def Nil by simp
  with assms show ?thesis unfolding followsChain_none [OF Nil] by simp
next
  case (Cons r later)
  have "List.find answered probes = Some r" unfolding find_dropWhile comp_def Cons by simp
  with assms show ?thesis unfolding followsChain_some [OF Cons] by simp
qed

lemma followsChain_first:
  assumes "followsChain (r # probes) contractAddr fallback d" and "answered r"
  shows "attempted d = [fst r] \<and> operations d = GetCode contractAddr # snd (snd r)
         \<and> outcome d = \<lparr>isProxy = True, proxyAddress = contractAddr, implementationAddress = fst (snd r),
                         detectionMethod = None, error = None\<rparr>"
  using assms by (simp add: followsChain_def)

lemma example_provider: "createProvider exampleNet ''ethereum'' = Inr exampleChain"
proof -
  have "getChainConfig ''ethereum'' =
          Chain \<lparr>chainLabel = ''Ethereum'', chainId = 1, rpcUrl = ''https://ethereum.publicnode.com'',
                 symbol = ''ETH'', explorer = ''https://etherscan.io''\<rparr>"
    by code_simp
  then show ?thesis by (simp add: createProvider_def exampleNet_def)
qed


text \<open>
  C6. When the chain is supported and \<open>provider.getCode\<close> returns \<open>0x\<close> or \<open>0x0\<close> for the
  address, \<open>detectProxy\<close> returns (it does not raise): \<open>isProxy\<close> is false, there is no
  implementation address, and \<open>error\<close> is \<open>No contract at address\<close>. No probe is called,
  and \<open>getCode\<close> is all the run asks of the provider.
\<close>

theorem detectProxy_no_contract:
  assumes "createProvider net chainName = Inr prov"
      and "getCode prov contractAddr = Inr code"
      and "code = ''0x'' \<or> code = ''0x0''"
  shows "detectProxy net getAddress chainName contractAddr sourceDat =
           Inr \<lparr>outcome = \<lparr>isProxy = False, proxyAddress = contractAddr,
                             implementationAddress = None, detectionMethod = None,
                             error = Some ''No contract at address''\<rparr>,
                attempted = [], operations = [GetCode contractAddr], invalidDeclared = None\<rparr>"
  using assms by (auto simp: detectProxy_def)

theorem detectProxy_no_contract_witness:
  "createProvider exampleNet ''ethereum'' = Inr exampleChain
   \<and> getCode exampleChain ''0x00000000000000000000000000000000000000ee'' = Inr ''0x''
   \<and> (''0x'' = ''0x'' \<or> ''0x'' = ''0x0'')
   \<and> detectProxy exampleNet shapeOnly ''ethereum'' ''0x00000000000000000000000000000000000000ee'' None =
        Inr \<lparr>outcome = \<lparr>isProxy = False, proxyAddress = ''0x00000000000000000000000000000000000000ee'',
                          implementationAddress = None, detectionMethod = None,
                          error = Some ''No contract at address''\<rparr>,
             attempted = [], operations = [GetCode ''0x00000000000000000000000000000000000000ee''],
             invalidDeclared = None\<rparr>"
proof -
  have h2: "getCode exampleChain ''0x00000000000000000000000000000000000000ee'' = Inr ''0x''"
    by (simp add: exampleChain_def)
  have h3: "''0x'' = ''0x'' \<or> ''0x'' = ''0x0''" by simp
  from detectProxy_no_contract [OF example_provider h2 h3, of shapeOnly None] example_provider h2 h3
  show ?thesis by blast
qed


text \<open>
  C4. For an address with deployed code on a supported chain. When the source record
  declares a proxy with an implementation that \<open>ethers.getAddress\<close> accepts, the run
  returns that address with the tag \<open>etherscan-api\<close>, calls no probe and asks nothing of
  the provider after \<open>getCode\<close>. Otherwise the run logs the declared value, if there is
  one, as invalid and goes through the seven probes in this order: the storage slot
  \<open>EIP_1967_LOGIC_SLOT\<close> of the address, the slot \<open>OPEN_ZEPPELIN_IMPLEMENTATION_SLOT\<close>,
  the slot \<open>EIP_1822_LOGIC_SLOT\<close>, the EIP-1167 patterns on the bytecode already fetched,
  the call of \<open>implementation()\<close>, the call of \<open>masterCopy()\<close>, and the beacon probe. It
  reads each slot and makes each call named here, in this order, up to and including
  the first probe that answers, and nothing of a later probe: a probe is attempted only
  when every probe before it gave no answer. It returns the answer of that probe; when
  none answers, what follows the loop decides. The beacon probe reads the slot
  \<open>EIP_1967_BEACON_SLOT\<close> and, when that holds an address, calls \<open>implementation()\<close> on
  the beacon and, if that gives nothing, \<open>childImplementation()\<close>.
\<close>

theorem detectProxy_priority_chain:
  assumes prov: "createProvider net chainName = Inr prov"
      and code: "getCode prov contractAddr = Inr code"
      and deployed: "code \<noteq> ''0x'' \<and> code \<noteq> ''0x0''"
  shows "(\<exists>d. detectProxy net getAddress chainName contractAddr sourceDat = Inr d
            \<and> (case trustedDeclared getAddress sourceDat of
                  Some etherscanImpl \<Rightarrow>
                    d = \<lparr>outcome = \<lparr>isProxy = True, proxyAddress = contractAddr,
                                    implementationAddress = Some etherscanImpl,
                                    detectionMethod = Some ''etherscan-api'', error = None\<rparr>,
                         attempted = [], operations = [GetCode contractAddr],
                         invalidDeclared = None\<rparr>
                | None \<Rightarrow>
                    invalidDeclared d = declaredImplementation sourceDat
                    \<and> followsChain
                         [(Eip1967Direct,
                             fst (tryStorageSlot prov getAddress contractAddr EIP_1967_LOGIC_SLOT),
                             [GetStorage contractAddr EIP_1967_LOGIC_SLOT]),
                          (OpenZeppelinSlot,
                             fst (tryStorageSlot prov getAddress contractAddr OPEN_ZEPPELIN_IMPLEMENTATION_SLOT),
                             [GetStorage contractAddr OPEN_ZEPPELIN_IMPLEMENTATION_SLOT]),
                          (Eip1822Uups,
                             fst (tryStorageSlot prov getAddress contractAddr EIP_1822_LOGIC_SLOT),
                             [GetStorage contractAddr EIP_1822_LOGIC_SLOT]),
                          (Eip1167Bytecode, parseEIP1167Bytecode getAddress code, []),
                          (Eip897Call,
                             fst (tryContractCall prov getAddress contractAddr ''implementation''),
                             [CallView contractAddr ''implementation'']),
                          (GnosisSafeCall,
                             fst (tryContractCall prov getAddress contractAddr ''masterCopy''),
                             [CallView contractAddr ''masterCopy'']),
                          (Eip1967Beacon,
                             fst (beaconProbe prov getAddress contractAddr),
                             snd (beaconProbe prov getAddress contractAddr))]
                         contractAddr (afterProbes prov getAddress contractAddr sourceDat) d))
       \<and> snd (beaconProbe prov getAddress contractAddr) =
           GetStorage contractAddr EIP_1967_BEACON_SLOT #
             (case fst (tryStorageSlot prov getAddress contractAddr EIP_1967_BEACON_SLOT) of
                None \<Rightarrow> []
              | Some beacon \<Rightarrow>
                  if beacon = [] then []
                  else CallView beacon ''implementation'' #
                         (if truthyStr (fst (tryContractCall prov getAddress beacon ''implementation''))
                          then [] else [CallView beacon ''childImplementation'']))"
proof -
  note run = detectProxy_deployed [OF prov code deployed, of getAddress sourceDat]
  note chain = standardDetection_chain
    [of prov getAddress contractAddr code sourceDat "declaredImplementation sourceDat",
     unfolded probes_of_detectionMethods]
  show ?thesis
  proof (cases "trustedDeclared getAddress sourceDat")
    case None
    with run chain beaconProbe_ops [of prov getAddress contractAddr] show ?thesis by simp
  next
    case (Some etherscanImpl)
    with run beaconProbe_ops [of prov getAddress contractAddr] show ?thesis by simp
  qed
qed

theorem detectProxy_priority_chain_witness:
  "createProvider exampleNet ''ethereum'' = Inr exampleChain
   \<and> getCode exampleChain ''0x00000000000000000000000000000000000000e5'' = Inr ''0x6080''
   \<and> (''0x6080'' \<noteq> ''0x'' \<and> ''0x6080'' \<noteq> ''0x0'')
   \<and> trustedDeclared shapeOnly (Some declaredBad) = None
   \<and> (\<exists>d. detectProxy exampleNet shapeOnly ''ethereum'' ''0x00000000000000000000000000000000000000e5''
              (Some declaredBad) = Inr d
          \<and> invalidDeclared d = Some ''not-an-address''
          \<and> attempted d = [Eip1967Direct, OpenZeppelinSlot, Eip1822Uups]
          \<and> operations d =
              [GetCode ''0x00000000000000000000000000000000000000e5'',
               GetStorage ''0x00000000000000000000000000000000000000e5'' EIP_1967_LOGIC_SLOT,
               GetStorage ''0x00000000000000000000000000000000000000e5'' OPEN_ZEPPELIN_IMPLEMENTATION_SLOT,
               GetStorage ''0x00000000000000000000000000000000000000e5'' EIP_1822_LOGIC_SLOT]
          \<and> outcome d =
              \<lparr>isProxy = True, proxyAddress = ''0x00000000000000000000000000000000000000e5'',
               implementationAddress = Some ''0x00000000000000000000000000000000000000b2'',
               detectionMethod = None, error = None\<rparr>)
   \<and> detectProxy exampleNet shapeOnly ''ethereum'' ''0x00000000000000000000000000000000000000f6'' None =
        Inr \<lparr>outcome = \<lparr>isProxy = True, proxyAddress = ''0x00000000000000000000000000000000000000f6'',
                          implementationAddress = Some ''0x00000000000000000000000000000000000000b2'',
                          detectionMethod = None, error = None\<rparr>,
             attempted = [Eip1967Direct, OpenZeppelinSlot, Eip1822Uups, Eip1167Bytecode, Eip897Call,
                          GnosisSafeCall],
             operations =
               [GetCode ''0x00000000000000000000000000000000000000f6'',
                GetStorage ''0x00000000000000000000000000000000000000f6'' EIP_1967_LOGIC_SLOT,
                GetStorage ''0x00000000000000000000000000000000000000f6'' OPEN_ZEPPELIN_IMPLEMENTATION_SLOT,
                GetStorage ''0x00000000000000000000000000000000000000f6'' EIP_1822_LOGIC_SLOT,
                CallView ''0x00000000000000000000000000000000000000f6'' ''implementation'',
                CallView ''0x00000000000000000000000000000000000000f6'' ''masterCopy''],
             invalidDeclared = None\<rparr>
   \<and> detectProxy exampleNet shapeOnly ''ethereum'' ''0x00000000000000000000000000000000000000c3''
        (Some declaredBad) =
        Inr \<lparr>outcome = \<lparr>isProxy = False, proxyAddress = ''0x00000000000000000000000000000000000000c3'',
                          implementationAddress = None, detectionMethod = None, error = None\<rparr>,
             attempted = [Eip1967Direct, OpenZeppelinSlot, Eip1822Uups, Eip1167Bytecode, Eip897Call,
                          GnosisSafeCall, Eip1967Beacon],
             operations =
               [GetCode ''0x00000000000000000000000000000000000000c3'',
                GetStorage ''0x00000000000000000000000000000000000000c3'' EIP_1967_LOGIC_SLOT,
                GetStorage ''0x00000000000000000000000000000000000000c3'' OPEN_ZEPPELIN_IMPLEMENTATION_SLOT,
                GetStorage ''0x00000000000000000000000000000000000000c3'' EIP_1822_LOGIC_SLOT,
                CallView ''0x00000000000000000000000000000000000000c3'' ''implementation'',
                CallView ''0x00000000000000000000000000000000000000c3'' ''masterCopy'',
                GetStorage ''0x00000000000000000000000000000000000000c3'' EIP_1967_BEACON_SLOT],
             invalidDeclared = Some ''not-an-address''\<rparr>
   \<and> detectProxy exampleNet shapeOnly ''ethereum'' ''0x00000000000000000000000000000000000000a1''
        (Some declaredGood) =
        Inr \<lparr>outcome = \<lparr>isProxy = True, proxyAddress = ''0x00000000000000000000000000000000000000a1'',
                          implementationAddress = Some ''0x00000000000000000000000000000000000000d4'',
                          detectionMethod = Some ''etherscan-api'', error = None\<rparr>,
             attempted = [], operations = [GetCode ''0x00000000000000000000000000000000000000a1''],
             invalidDeclared = None\<rparr>"
proof -
  have h2: "getCode exampleChain ''0x00000000000000000000000000000000000000e5'' = Inr ''0x6080''"
    by (simp add: exampleChain_def)
  have h3: "''0x6080'' \<noteq> ''0x'' \<and> ''0x6080'' \<noteq> ''0x0''" by simp
  have h4: "trustedDeclared shapeOnly (Some declaredBad) = None" by code_simp
  have d1: "declaredImplementation (Some declaredBad) = Some ''not-an-address''" by code_simp
  have a1: "fst (tryStorageSlot exampleChain shapeOnly ''0x00000000000000000000000000000000000000e5''
                   EIP_1967_LOGIC_SLOT) = None"
    by code_simp
  have a2: "fst (tryStorageSlot exampleChain shapeOnly ''0x00000000000000000000000000000000000000e5''
                   OPEN_ZEPPELIN_IMPLEMENTATION_SLOT) = None"
    by code_simp
  have a3: "fst (tryStorageSlot exampleChain shapeOnly ''0x00000000000000000000000000000000000000e5''
                   EIP_1822_LOGIC_SLOT) = Some ''0x00000000000000000000000000000000000000b2''"
    by code_simp
  have e1: "detectProxy exampleNet shapeOnly ''ethereum'' ''0x00000000000000000000000000000000000000f6'' None =
        Inr \<lparr>outcome = \<lparr>isProxy = True, proxyAddress = ''0x00000000000000000000000000000000000000f6'',
                          implementationAddress = Some ''0x00000000000000000000000000000000000000b2'',
                          detectionMethod = None, error = None\<rparr>,
             attempted = [Eip1967Direct, OpenZeppelinSlot, Eip1822Uups, Eip1167Bytecode, Eip897Call,
                          GnosisSafeCall],
             operations =
               [GetCode ''0x00000000000000000000000000000000000000f6'',
                GetStorage ''0x00000000000000000000000000000000000000f6'' EIP_1967_LOGIC_SLOT,
                GetStorage ''0x00000000000000000000000000000000000000f6'' OPEN_ZEPPELIN_IMPLEMENTATION_SLOT,
                GetStorage ''0x00000000000000000000000000000000000000f6'' EIP_1822_LOGIC_SLOT,
                CallView ''0x00000000000000000000000000000000000000f6'' ''implementation'',
                CallView ''0x00000000000000000000000000000000000000f6'' ''masterCopy''],
             invalidDeclared = None\<rparr>"
    by code_simp
  have e2: "detectProxy exampleNet shapeOnly ''ethereum'' ''0x00000000000000000000000000000000000000c3''
        (Some declaredBad) =
        Inr \<lparr>outcome = \<lparr>isProxy = False, proxyAddress = ''0x00000000000000000000000000000000000000c3'',
                          implementationAddress = None, detectionMethod = None, error = None\<rparr>,
             attempted = [Eip1967Direct, OpenZeppelinSlot, Eip1822Uups, Eip1167Bytecode, Eip897Call,
                          GnosisSafeCall, Eip1967Beacon],
             operations =
               [GetCode ''0x00000000000000000000000000000000000000c3'',
                GetStorage ''0x00000000000000000000000000000000000000c3'' EIP_1967_LOGIC_SLOT,
                GetStorage ''0x00000000000000000000000000000000000000c3'' OPEN_ZEPPELIN_IMPLEMENTATION_SLOT,
                GetStorage ''0x00000000000000000000000000000000000000c3'' EIP_1822_LOGIC_SLOT,
                CallView ''0x00000000000000000000000000000000000000c3'' ''implementation'',
                CallView ''0x00000000000000000000000000000000000000c3'' ''masterCopy'',
                GetStorage ''0x00000000000000000000000000000000000000c3'' EIP_1967_BEACON_SLOT],
             invalidDeclared = Some ''not-an-address''\<rparr>"
    by code_simp
  have e3: "detectProxy exampleNet shapeOnly ''ethereum'' ''0x00000000000000000000000000000000000000a1''
        (Some declaredGood) =
        Inr \<lparr>outcome = \<lparr>isProxy = True, proxyAddress = ''0x00000000000000000000000000000000000000a1'',
                          implementationAddress = Some ''0x00000000000000000000000000000000000000d4'',
                          detectionMethod = Some ''etherscan-api'', error = None\<rparr>,
             attempted = [], operations = [GetCode ''0x00000000000000000000000000000000000000a1''],
             invalidDeclared = None\<rparr>"
    by code_simp
  from detectProxy_priority_chain [OF example_provider h2 h3, of shapeOnly "Some declaredBad"]
  have t: "\<exists>d. detectProxy exampleNet shapeOnly ''ethereum'' ''0x00000000000000000000000000000000000000e5''
              (Some declaredBad) = Inr d
          \<and> invalidDeclared d = Some ''not-an-address''
          \<and> attempted d = [Eip1967Direct, OpenZeppelinSlot, Eip1822Uups]
          \<and> operations d =
              [GetCode ''0x00000000000000000000000000000000000000e5'',
               GetStorage ''0x00000000000000000000000000000000000000e5'' EIP_1967_LOGIC_SLOT,
               GetStorage ''0x00000000000000000000000000000000000000e5'' OPEN_ZEPPELIN_IMPLEMENTATION_SLOT,
               GetStorage ''0x00000000000000000000000000000000000000e5'' EIP_1822_LOGIC_SLOT]
          \<and> outcome d =
              \<lparr>isProxy = True, proxyAddress = ''0x00000000000000000000000000000000000000e5'',
               implementationAddress = Some ''0x00000000000000000000000000000000000000b2'',
               detectionMethod = None, error = None\<rparr>"
    by (simp add: h4 d1 a1 a2 a3 followsChain_def answered_def truthyStr_def)
  from t example_provider h2 h3 h4 e1 e2 e3 show ?thesis by blast
qed


text \<open>
  C1 fails on the code: the object the loop over the closures returns has the keys
  \<open>isProxy\<close>, \<open>proxyAddress\<close> and \<open>implementationAddress\<close> and no method tag. On
  \<open>exampleChain\<close> the EIP-1967 logic slot of the address holds a valid address, and the
  result carries that address and no tag.
\<close>

theorem eip1967_result_has_no_method_tag:
  "getStorage exampleChain ''0x00000000000000000000000000000000000000a1'' EIP_1967_LOGIC_SLOT
     = Some ''0x00000000000000000000000000000000000000000000000000000000000000b2''
   \<and> readAddressFromSlot shapeOnly ''0x00000000000000000000000000000000000000000000000000000000000000b2''
     = Some ''0x00000000000000000000000000000000000000b2''
   \<and> detectProxy exampleNet shapeOnly ''ethereum'' ''0x00000000000000000000000000000000000000a1'' None =
        Inr \<lparr>outcome = \<lparr>isProxy = True, proxyAddress = ''0x00000000000000000000000000000000000000a1'',
                          implementationAddress = Some ''0x00000000000000000000000000000000000000b2'',
                          detectionMethod = None, error = None\<rparr>,
             attempted = [Eip1967Direct],
             operations = [GetCode ''0x00000000000000000000000000000000000000a1'',
                           GetStorage ''0x00000000000000000000000000000000000000a1'' EIP_1967_LOGIC_SLOT],
             invalidDeclared = None\<rparr>
   \<and> map_sum id (detectionMethod \<circ> outcome)
        (detectProxy exampleNet shapeOnly ''ethereum'' ''0x00000000000000000000000000000000000000a1'' None)
       \<noteq> Inr (Some ''eip1967'')"
  by code_simp


text \<open>
  C1, as amended. For an address with deployed code on a supported chain, the object
  \<open>detectProxy\<close> returns is this. When the shortcut trusts a declared implementation, it
  carries that address and the tag \<open>etherscan-api\<close>. Otherwise, when one of the seven
  probes answers, it carries \<open>isProxy\<close> true, the answer of the first probe that answers,
  and no method tag, whichever of the seven probes that is. Otherwise, when the source
  is verified and the source analysis finds an address, it carries that address and the
  tag \<open>source-code-analysis\<close>. Otherwise it says that the address is no proxy, without
  a tag. So a result has a method tag only when the implementation comes from the
  registry record or from source analysis. In particular, when the shortcut trusts
  nothing and the EIP-1967 logic slot holds a value from which \<open>readAddressFromSlot\<close>
  reads a non-empty address, the result carries that address and no tag, after the
  first probe only: the run has read the bytecode and that one slot.
\<close>

theorem standard_probe_leaves_method_unset:
  assumes prov: "createProvider net chainName = Inr prov"
      and code: "getCode prov contractAddr = Inr code"
      and deployed: "code \<noteq> ''0x'' \<and> code \<noteq> ''0x0''"
  shows "\<exists>d. detectProxy net getAddress chainName contractAddr sourceDat = Inr d
           \<and> outcome d =
               (case trustedDeclared getAddress sourceDat of
                  Some etherscanImpl \<Rightarrow>
                    \<lparr>isProxy = True, proxyAddress = contractAddr,
                     implementationAddress = Some etherscanImpl,
                     detectionMethod = Some ''etherscan-api'', error = None\<rparr>
                | None \<Rightarrow>
                    (case List.find answered
                            [(Eip1967Direct,
                                fst (tryStorageSlot prov getAddress contractAddr EIP_1967_LOGIC_SLOT),
                                [GetStorage contractAddr EIP_1967_LOGIC_SLOT]),
                             (OpenZeppelinSlot,
                                fst (tryStorageSlot prov getAddress contractAddr OPEN_ZEPPELIN_IMPLEMENTATION_SLOT),
                                [GetStorage contractAddr OPEN_ZEPPELIN_IMPLEMENTATION_SLOT]),
                             (Eip1822Uups,
                                fst (tryStorageSlot prov getAddress contractAddr EIP_1822_LOGIC_SLOT),
                                [GetStorage contractAddr EIP_1822_LOGIC_SLOT]),
                             (Eip1167Bytecode, parseEIP1167Bytecode getAddress code, []),
                             (Eip897Call,
                                fst (tryContractCall prov getAddress contractAddr ''implementation''),
                                [CallView contractAddr ''implementation'']),
                             (GnosisSafeCall,
                                fst (tryContractCall prov getAddress contractAddr ''masterCopy''),
                                [CallView contractAddr ''masterCopy'']),
                             (Eip1967Beacon,
                                fst (beaconProbe prov getAddress contractAddr),
                                snd (beaconProbe prov getAddress contractAddr))] of
                       Some r \<Rightarrow>
                         \<lparr>isProxy = True, proxyAddress = contractAddr,
                          implementationAddress = fst (snd r),
                          detectionMethod = None, error = None\<rparr>
                     | None \<Rightarrow>
                         (case sourceDat of
                            None \<Rightarrow>
                              \<lparr>isProxy = False, proxyAddress = contractAddr,
                               implementationAddress = None, detectionMethod = None, error = None\<rparr>
                          | Some sd \<Rightarrow>
                              if sdIsVerified sd
                                 \<and> truthyStr (fst (detectProxyFromSource prov getAddress contractAddr sd))
                              then \<lparr>isProxy = True, proxyAddress = contractAddr,
                                    implementationAddress =
                                      fst (detectProxyFromSource prov getAddress contractAddr sd),
                                    detectionMethod = Some ''source-code-analysis'', error = None\<rparr>
                              else \<lparr>isProxy = False, proxyAddress = contractAddr,
                                    implementationAddress = None, detectionMethod = None,
                                    error = None\<rparr>)))
           \<and> (trustedDeclared getAddress sourceDat = None
                \<and> getStorage prov contractAddr EIP_1967_LOGIC_SLOT = Some slotValue
                \<and> readAddressFromSlot getAddress slotValue = Some a \<and> a \<noteq> [] \<longrightarrow>
                outcome d = \<lparr>isProxy = True, proxyAddress = contractAddr,
                              implementationAddress = Some a, detectionMethod = None, error = None\<rparr>
                \<and> attempted d = [Eip1967Direct]
                \<and> operations d = [GetCode contractAddr, GetStorage contractAddr EIP_1967_LOGIC_SLOT])"
proof -
  note run = detectProxy_deployed [OF prov code deployed, of getAddress sourceDat]
  note chain = standardDetection_chain
    [of prov getAddress contractAddr code sourceDat "declaredImplementation sourceDat",
     unfolded probes_of_detectionMethods, THEN conjunct1]
  show ?thesis
  proof (cases "trustedDeclared getAddress sourceDat")
    case (Some etherscanImpl)
    with run show ?thesis by simp
  next
    case None
    let ?d = "standardDetection prov getAddress contractAddr code sourceDat (declaredImplementation sourceDat)"
    have r: "detectProxy net getAddress chainName contractAddr sourceDat = Inr ?d"
      using run None by simp
    have general: "outcome ?d =
                    (case List.find answered
                            [(Eip1967Direct,
                                fst (tryStorageSlot prov getAddress contractAddr EIP_1967_LOGIC_SLOT),
                                [GetStorage contractAddr EIP_1967_LOGIC_SLOT]),
                             (OpenZeppelinSlot,
                                fst (tryStorageSlot prov getAddress contractAddr OPEN_ZEPPELIN_IMPLEMENTATION_SLOT),
                                [GetStorage contractAddr OPEN_ZEPPELIN_IMPLEMENTATION_SLOT]),
                             (Eip1822Uups,
                                fst (tryStorageSlot prov getAddress contractAddr EIP_1822_LOGIC_SLOT),
                                [GetStorage contractAddr EIP_1822_LOGIC_SLOT]),
                             (Eip1167Bytecode, parseEIP1167Bytecode getAddress code, []),
                             (Eip897Call,
                                fst (tryContractCall prov getAddress contractAddr ''implementation''),
                                [CallView contractAddr ''implementation'']),
                             (GnosisSafeCall,
                                fst (tryContractCall prov getAddress contractAddr ''masterCopy''),
                                [CallView contractAddr ''masterCopy'']),
                             (Eip1967Beacon,
                                fst (beaconProbe prov getAddress contractAddr),
                                snd (beaconProbe prov getAddress contractAddr))] of
                       Some r \<Rightarrow>
                         \<lparr>isProxy = True, proxyAddress = contractAddr,
                          implementationAddress = fst (snd r),
                          detectionMethod = None, error = None\<rparr>
                     | None \<Rightarrow>
                         (case sourceDat of
                            None \<Rightarrow>
                              \<lparr>isProxy = False, proxyAddress = contractAddr,
                               implementationAddress = None, detectionMethod = None, error = None\<rparr>
                          | Some sd \<Rightarrow>
                              if sdIsVerified sd
                                 \<and> truthyStr (fst (detectProxyFromSource prov getAddress contractAddr sd))
                              then \<lparr>isProxy = True, proxyAddress = contractAddr,
                                    implementationAddress =
                                      fst (detectProxyFromSource prov getAddress contractAddr sd),
                                    detectionMethod = Some ''source-code-analysis'', error = None\<rparr>
                              else \<lparr>isProxy = False, proxyAddress = contractAddr,
                                    implementationAddress = None, detectionMethod = None,
                                    error = None\<rparr>))"
      unfolding followsChain_outcome [OF chain] afterProbes_outcome
      by (simp split: option.splits)
    have first: "getStorage prov contractAddr EIP_1967_LOGIC_SLOT = Some slotValue
                \<and> readAddressFromSlot getAddress slotValue = Some a \<and> a \<noteq> [] \<longrightarrow>
                outcome ?d = \<lparr>isProxy = True, proxyAddress = contractAddr,
                              implementationAddress = Some a, detectionMethod = None, error = None\<rparr>
                \<and> attempted ?d = [Eip1967Direct]
                \<and> operations ?d = [GetCode contractAddr, GetStorage contractAddr EIP_1967_LOGIC_SLOT]"
    proof (intro impI)
      assume h: "getStorage prov contractAddr EIP_1967_LOGIC_SLOT = Some slotValue
                \<and> readAddressFromSlot getAddress slotValue = Some a \<and> a \<noteq> []"
      then have "answered (Eip1967Direct,
                   fst (tryStorageSlot prov getAddress contractAddr EIP_1967_LOGIC_SLOT),
                   [GetStorage contractAddr EIP_1967_LOGIC_SLOT])"
        and "fst (tryStorageSlot prov getAddress contractAddr EIP_1967_LOGIC_SLOT) = Some a"
        by (simp_all add: answered_def tryStorageSlot_def truthyStr_def)
      with followsChain_first [OF chain]
      show "outcome ?d = \<lparr>isProxy = True, proxyAddress = contractAddr,
                              implementationAddress = Some a, detectionMethod = None, error = None\<rparr>
                \<and> attempted ?d = [Eip1967Direct]
                \<and> operations ?d = [GetCode contractAddr, GetStorage contractAddr EIP_1967_LOGIC_SLOT]"
        by simp
    qed
    from r general first None show ?thesis by simp
  qed
qed

theorem standard_probe_leaves_method_unset_witness:
  "createProvider exampleNet ''ethereum'' = Inr exampleChain
   \<and> getCode exampleChain ''0x00000000000000000000000000000000000000a1'' = Inr ''0x6080''
   \<and> getCode exampleChain ''0x00000000000000000000000000000000000000e5'' = Inr ''0x6080''
   \<and> (''0x6080'' \<noteq> ''0x'' \<and> ''0x6080'' \<noteq> ''0x0'')
   \<and> trustedDeclared shapeOnly (Some declaredBad) = None
   \<and> getStorage exampleChain ''0x00000000000000000000000000000000000000a1'' EIP_1967_LOGIC_SLOT
        = Some ''0x00000000000000000000000000000000000000000000000000000000000000b2''
   \<and> readAddressFromSlot shapeOnly ''0x00000000000000000000000000000000000000000000000000000000000000b2''
        = Some ''0x00000000000000000000000000000000000000b2''
   \<and> ''0x00000000000000000000000000000000000000b2'' \<noteq> []
   \<and> (\<exists>d. detectProxy exampleNet shapeOnly ''ethereum'' ''0x00000000000000000000000000000000000000a1''
              (Some declaredBad) = Inr d
          \<and> outcome d = \<lparr>isProxy = True, proxyAddress = ''0x00000000000000000000000000000000000000a1'',
                          implementationAddress = Some ''0x00000000000000000000000000000000000000b2'',
                          detectionMethod = None, error = None\<rparr>
          \<and> attempted d = [Eip1967Direct]
          \<and> operations d = [GetCode ''0x00000000000000000000000000000000000000a1'',
                            GetStorage ''0x00000000000000000000000000000000000000a1'' EIP_1967_LOGIC_SLOT])
   \<and> (\<exists>d. detectProxy exampleNet shapeOnly ''ethereum'' ''0x00000000000000000000000000000000000000e5''
              None = Inr d
          \<and> outcome d = \<lparr>isProxy = True, proxyAddress = ''0x00000000000000000000000000000000000000e5'',
                          implementationAddress = Some ''0x00000000000000000000000000000000000000b2'',
                          detectionMethod = None, error = None\<rparr>)
   \<and> (\<exists>d. detectProxy exampleNet shapeOnly ''ethereum'' ''0x00000000000000000000000000000000000000a1''
              (Some declaredGood) = Inr d
          \<and> outcome d = \<lparr>isProxy = True, proxyAddress = ''0x00000000000000000000000000000000000000a1'',
                          implementationAddress = Some ''0x00000000000000000000000000000000000000d4'',
                          detectionMethod = Some ''etherscan-api'', error = None\<rparr>)"
proof -
  have h2: "getCode exampleChain ''0x00000000000000000000000000000000000000a1'' = Inr ''0x6080''"
    by (simp add: exampleChain_def)
  have h2e: "getCode exampleChain ''0x00000000000000000000000000000000000000e5'' = Inr ''0x6080''"
    by (simp add: exampleChain_def)
  have h3: "''0x6080'' \<noteq> ''0x'' \<and> ''0x6080'' \<noteq> ''0x0''" by simp
  have h4: "trustedDeclared shapeOnly (Some declaredBad) = None" by code_simp
  have h4n: "trustedDeclared shapeOnly None = None" by code_simp
  have h4g: "trustedDeclared shapeOnly (Some declaredGood) = Some ''0x00000000000000000000000000000000000000d4''"
    by code_simp
  have h5: "getStorage exampleChain ''0x00000000000000000000000000000000000000a1'' EIP_1967_LOGIC_SLOT
        = Some ''0x00000000000000000000000000000000000000000000000000000000000000b2''"
    by (simp add: exampleChain_def)
  have h6: "readAddressFromSlot shapeOnly ''0x00000000000000000000000000000000000000000000000000000000000000b2''
        = Some ''0x00000000000000000000000000000000000000b2''"
    by code_simp
  have h7: "''0x00000000000000000000000000000000000000b2'' \<noteq> []" by simp
  have a1: "fst (tryStorageSlot exampleChain shapeOnly ''0x00000000000000000000000000000000000000e5''
                   EIP_1967_LOGIC_SLOT) = None"
    by code_simp
  have a2: "fst (tryStorageSlot exampleChain shapeOnly ''0x00000000000000000000000000000000000000e5''
                   OPEN_ZEPPELIN_IMPLEMENTATION_SLOT) = None"
    by code_simp
  have a3: "fst (tryStorageSlot exampleChain shapeOnly ''0x00000000000000000000000000000000000000e5''
                   EIP_1822_LOGIC_SLOT) = Some ''0x00000000000000000000000000000000000000b2''"
    by code_simp
  from standard_probe_leaves_method_unset
    [OF example_provider h2 h3, where getAddress = shapeOnly and sourceDat = "Some declaredBad"
       and slotValue = "''0x00000000000000000000000000000000000000000000000000000000000000b2''"
       and a = "''0x00000000000000000000000000000000000000b2''"]
  have t1: "\<exists>d. detectProxy exampleNet shapeOnly ''ethereum'' ''0x00000000000000000000000000000000000000a1''
              (Some declaredBad) = Inr d
          \<and> outcome d = \<lparr>isProxy = True, proxyAddress = ''0x00000000000000000000000000000000000000a1'',
                          implementationAddress = Some ''0x00000000000000000000000000000000000000b2'',
                          detectionMethod = None, error = None\<rparr>
          \<and> attempted d = [Eip1967Direct]
          \<and> operations d = [GetCode ''0x00000000000000000000000000000000000000a1'',
                            GetStorage ''0x00000000000000000000000000000000000000a1'' EIP_1967_LOGIC_SLOT]"
    using h4 h5 h6 h7 by auto
  from standard_probe_leaves_method_unset
    [OF example_provider h2e h3, where getAddress = shapeOnly and sourceDat = None]
  have t2: "\<exists>d. detectProxy exampleNet shapeOnly ''ethereum'' ''0x00000000000000000000000000000000000000e5''
              None = Inr d
          \<and> outcome d = \<lparr>isProxy = True, proxyAddress = ''0x00000000000000000000000000000000000000e5'',
                          implementationAddress = Some ''0x00000000000000000000000000000000000000b2'',
                          detectionMethod = None, error = None\<rparr>"
    by (auto simp: h4n a1 a2 a3 answered_def truthyStr_def)
  from standard_probe_leaves_method_unset
    [OF example_provider h2 h3, where getAddress = shapeOnly and sourceDat = "Some declaredGood"]
  have t3: "\<exists>d. detectProxy exampleNet shapeOnly ''ethereum'' ''0x00000000000000000000000000000000000000a1''
              (Some declaredGood) = Inr d
          \<and> outcome d = \<lparr>isProxy = True, proxyAddress = ''0x00000000000000000000000000000000000000a1'',
                          implementationAddress = Some ''0x00000000000000000000000000000000000000d4'',
                          detectionMethod = Some ''etherscan-api'', error = None\<rparr>"
    by (auto simp: h4g)
  from t1 t2 t3 example_provider h2 h2e h3 h4 h5 h6 h7 show ?thesis by blast
qed

end
